theory Spec2Isabelle
  imports Complex_Main "HOL-Library.Sublist" "HOL-Library.Word" "HOL-Library.Log_Nat"
begin

section \<open>Plant water-stress scripts: the numeric core of gemine.py and llava.py\<close>

text \<open>
  The two scripts \<^verbatim>\<open>gemine.py\<close> and \<^verbatim>\<open>llava.py\<close> each define the same small
  numeric helpers and then run the same module-level pipeline. Every function is
  embedded twice, once per file, under the file's name as a prefix.

  The stress scores of the pipeline are modelled on exact reals: there the rounding
  of each float operation is not modelled, and \<^verbatim>\<open>nan\<close> and \<^verbatim>\<open>inf\<close> are left out
  (where numpy produces \<^verbatim>\<open>nan\<close> on an empty array the model returns \<open>None\<close>). The
  functions that call \<^verbatim>\<open>round\<close> and the parser that calls \<^verbatim>\<open>float\<close> are modelled on
  IEEE doubles, since what they return depends on the rounding.
  A soil string is a \<^typ>\<open>string\<close>, lower-cased on its ASCII letters; the reply of the
  remote model is a list of Unicode code points.
\<close>

subsection \<open>Python built-ins used by the scripts\<close>

text \<open>\<^verbatim>\<open>str.lower()\<close>, character by character.\<close>

definition char_lower :: "char \<Rightarrow> char" where
  "char_lower c =
     (let n = (of_char c :: nat) in if 65 \<le> n \<and> n \<le> 90 then char_of (n + 32) else c)"

definition py_lower :: "string \<Rightarrow> string" where
  "py_lower s = map char_lower s"

text \<open>
  Two strings are case variants of each other when they have the same length and, at
  each position, the same character or the two cases of one letter.
\<close>

definition case_variant :: "string \<Rightarrow> string \<Rightarrow> bool" where
  "case_variant s t = list_all2 (\<lambda>a b. a = b \<or> char_lower a = b \<or> a = char_lower b) s t"

text \<open>\<^verbatim>\<open>sub in s\<close> on strings: \<open>sub\<close> occurs in \<open>s\<close> as a contiguous block.\<close>

fun starts_with :: "string \<Rightarrow> string \<Rightarrow> bool" where
  "starts_with s [] = True"
| "starts_with [] (p # ps) = False"
| "starts_with (c # cs) (p # ps) = (c = p \<and> starts_with cs ps)"

fun py_in :: "string \<Rightarrow> string \<Rightarrow> bool" where
  "py_in sub [] = (sub = [])"
| "py_in sub (c # cs) = (starts_with (c # cs) sub \<or> py_in sub cs)"

text \<open>Rounding a real to the nearest integer, a tie going to the even one.\<close>

definition round_half_even :: "real \<Rightarrow> int" where
  "round_half_even y =
     (let f = \<lfloor>y\<rfloor>; d = y - of_int f
      in if d < 1/2 then f else if 1/2 < d then f + 1 else if even f then f else f + 1)"

subsection \<open>Doubles\<close>

text \<open>
  A Python \<^verbatim>\<open>float\<close> and a numpy \<^verbatim>\<open>float64\<close> are IEEE binary64 numbers. A finite one
  is \<open>Finite x\<close> with \<open>x\<close> its exact value; the two zeros are not told apart.

  \<open>binary_exponent x\<close> is the \<open>e\<close> with \<open>2 ^ e \<le> x < 2 ^ (e + 1)\<close>, for positive \<open>x\<close>.
  \<open>round_to_grid\<close> rounds a real to the nearest number with a 53-bit mantissa (or
  to the nearest multiple of \<open>2 ^ -1074\<close>, for a subnormal), ties to the even
  mantissa. \<open>fl\<close> is that rounding with overflow to an infinity: it is what every
  float operation and every conversion of a string applies to its exact result.
\<close>

datatype float64 = Finite real | PInf | NInf | NaN

definition binary_exponent :: "real \<Rightarrow> int" where
  "binary_exponent x = (if 1 \<le> x then bitlen \<lfloor>x\<rfloor> - 1 else - bitlen (\<lceil>1 / x\<rceil> - 1))"

definition round_to_grid :: "real \<Rightarrow> real" where
  "round_to_grid x =
     (let q = max (binary_exponent \<bar>x\<bar> - 52) (- 1074)
      in of_int (round_half_even (x / 2 powi q)) * 2 powi q)"

definition fl :: "real \<Rightarrow> float64" where
  "fl x =
     (if x = 0 then Finite 0
      else if 2 ^ 1024 \<le> round_to_grid x then PInf
      else if round_to_grid x \<le> - (2 ^ 1024) then NInf
      else Finite (round_to_grid x))"

text \<open>
  The product \<^verbatim>\<open>c * a\<close> and the quotient \<^verbatim>\<open>a / c\<close> of a float \<open>a\<close> and a positive
  finite constant \<open>c\<close> (the scripts multiply by 0.5, 1.5, 3.0 and 2, numpy's rounding
  multiplies and divides by 100), and \<^verbatim>\<open>np.rint\<close>.
\<close>

definition fmul_pos :: "real \<Rightarrow> float64 \<Rightarrow> float64" where
  "fmul_pos c a = (case a of Finite x \<Rightarrow> fl (c * x) | _ \<Rightarrow> a)"

definition fdiv_pos :: "float64 \<Rightarrow> real \<Rightarrow> float64" where
  "fdiv_pos a c = (case a of Finite x \<Rightarrow> fl (x / c) | _ \<Rightarrow> a)"

definition frint :: "float64 \<Rightarrow> float64" where
  "frint a = (case a of Finite x \<Rightarrow> Finite (of_int (round_half_even x)) | _ \<Rightarrow> a)"

text \<open>The comparison \<^verbatim>\<open>a < b\<close> of two floats; it is false when one of them is \<^verbatim>\<open>nan\<close>.\<close>

fun f_less :: "float64 \<Rightarrow> float64 \<Rightarrow> bool" where
  "f_less (Finite x) (Finite y) = (x < y)"
| "f_less NaN b = False"
| "f_less a NaN = False"
| "f_less a NInf = False"
| "f_less NInf b = True"
| "f_less PInf b = False"
| "f_less a PInf = True"

subsection \<open>Python numbers\<close>

text \<open>
  The values that reach \<^verbatim>\<open>round\<close>, \<^verbatim>\<open>min\<close> and \<^verbatim>\<open>max\<close> in the scripts: a Python
  \<^verbatim>\<open>int\<close>, a Python \<^verbatim>\<open>float\<close>, or a numpy \<^verbatim>\<open>float64\<close> (what \<^verbatim>\<open>np.mean\<close> returns, and
  every result of arithmetic on one). An \<^verbatim>\<open>int\<close> compares with a float by its exact
  value.
\<close>

datatype py_num = PyInt int | PyFloat float64 | NpFloat64 float64

fun num_float :: "py_num \<Rightarrow> float64" where
  "num_float (PyInt i) = Finite (of_int i)"
| "num_float (PyFloat a) = a"
| "num_float (NpFloat64 a) = a"

definition py_less :: "py_num \<Rightarrow> py_num \<Rightarrow> bool" where
  "py_less a b = f_less (num_float a) (num_float b)"

text \<open>
  \<^verbatim>\<open>min(a, b)\<close> keeps \<open>a\<close> unless \<open>b < a\<close>, and \<^verbatim>\<open>max(a, b)\<close> keeps \<open>a\<close> unless
  \<open>a < b\<close>.
\<close>

definition py_min2 :: "py_num \<Rightarrow> py_num \<Rightarrow> py_num" where
  "py_min2 a b = (if py_less b a then b else a)"

definition py_max2 :: "py_num \<Rightarrow> py_num \<Rightarrow> py_num" where
  "py_max2 a b = (if py_less a b then b else a)"

text \<open>
  \<^verbatim>\<open>round(n, 2)\<close>. An \<^verbatim>\<open>int\<close> is returned as it is. A Python \<^verbatim>\<open>float\<close> is written as
  a decimal string with two places, correctly rounded from its exact value (ties to
  even), and the string is read back: the result is the double nearest to that
  hundredth. A numpy \<^verbatim>\<open>float64\<close> is rounded by numpy's own algorithm instead:
  \<^verbatim>\<open>np.true_divide(np.rint(a * 100), 100)\<close>, each step a float operation. The two
  differ: on 16.055 Python gives 16.05 and numpy gives 16.06.
\<close>

definition float_round2 :: "float64 \<Rightarrow> float64" where
  "float_round2 a =
     (case a of Finite x \<Rightarrow> fl (of_int (round_half_even (x * 100)) / 100) | _ \<Rightarrow> a)"

definition np_round2 :: "float64 \<Rightarrow> float64" where
  "np_round2 a = fdiv_pos (frint (fmul_pos 100 a)) 100"

fun py_round2 :: "py_num \<Rightarrow> py_num" where
  "py_round2 (PyInt i) = PyInt i"
| "py_round2 (PyFloat a) = PyFloat (float_round2 a)"
| "py_round2 (NpFloat64 a) = NpFloat64 (np_round2 a)"

text \<open>
  \<^verbatim>\<open>c * n\<close> for a positive Python float constant \<open>c\<close>: an \<^verbatim>\<open>int\<close> is converted to a
  float first, which raises \<^verbatim>\<open>OverflowError\<close> when it is too large; the product with
  a numpy \<^verbatim>\<open>float64\<close> is a numpy \<^verbatim>\<open>float64\<close>. \<^verbatim>\<open>n * 2\<close> for a float \<open>n\<close> keeps its kind.
\<close>

datatype py_error = ValueError | OverflowError

fun py_float_times :: "real \<Rightarrow> py_num \<Rightarrow> py_error + py_num" where
  "py_float_times c (PyInt i) =
     (case fl (of_int i) of
        Finite x \<Rightarrow> Inr (PyFloat (fmul_pos c (Finite x)))
      | _ \<Rightarrow> Inl OverflowError)"
| "py_float_times c (PyFloat a) = Inr (PyFloat (fmul_pos c a))"
| "py_float_times c (NpFloat64 a) = Inr (NpFloat64 (fmul_pos c a))"

fun py_times_two :: "py_num \<Rightarrow> py_num" where
  "py_times_two (PyInt i) = PyInt (i * 2)"
| "py_times_two (PyFloat a) = PyFloat (fmul_pos 2 a)"
| "py_times_two (NpFloat64 a) = NpFloat64 (fmul_pos 2 a)"

subsection \<open>The reply of the remote model\<close>

text \<open>
  The reply is a Python \<^verbatim>\<open>str\<close>: a list of Unicode code points. Which code points
  beyond ASCII are digits is a table of the Unicode standard; it is the parameter
  \<open>ucd\<close> of the functions below. \<open>ucd ch = Some (Decimal d)\<close> says that \<open>ch\<close> is a
  decimal digit of value \<open>d\<close>, \<open>ucd ch = Some Other_digit\<close> that it is a digit of
  another kind (a superscript two, say), \<open>None\<close> that it is no digit. ASCII code
  points do not go through the table: the ASCII digits are 48 to 57.
\<close>

datatype digit_class = Decimal nat | Other_digit

type_synonym py_str = "nat list"

text \<open>An ASCII literal as a Python string.\<close>

definition ascii :: "string \<Rightarrow> py_str" where
  "ascii s = map of_char s"

text \<open>\<^verbatim>\<open>ch.isdigit()\<close>: true of the decimal digits and of the other digits.\<close>

definition is_digit :: "(nat \<Rightarrow> digit_class option) \<Rightarrow> nat \<Rightarrow> bool" where
  "is_digit ucd ch = (if ch < 128 then 48 \<le> ch \<and> ch \<le> 57 else ucd ch \<noteq> None)"

text \<open>
  \<^verbatim>\<open>float(s)\<close> first replaces every decimal digit beyond ASCII by the ASCII digit of
  its value; any other code point beyond ASCII makes the string unreadable. It then
  reads digits, an optional point (code point 46) and more digits, with at least one
  digit in all, and raises \<^verbatim>\<open>ValueError\<close> on everything else. The scripts call it only
  on strings made of digits and points, so signs, exponents and blanks do not occur.
  The value read is rounded to a double, or to \<^verbatim>\<open>inf\<close> when it is too large.
\<close>

datatype float_token = TDigit nat | TDot | TBad

definition float_token :: "(nat \<Rightarrow> digit_class option) \<Rightarrow> nat \<Rightarrow> float_token" where
  "float_token ucd ch =
     (if ch < 128 then
        (if 48 \<le> ch \<and> ch \<le> 57 then TDigit (ch - 48) else if ch = 46 then TDot else TBad)
      else (case ucd ch of Some (Decimal d) \<Rightarrow> TDigit d | _ \<Rightarrow> TBad))"

fun is_tdigit :: "float_token \<Rightarrow> bool" where
  "is_tdigit (TDigit d) = True"
| "is_tdigit t = False"

fun tdigit_val :: "float_token \<Rightarrow> nat" where
  "tdigit_val (TDigit d) = d"
| "tdigit_val t = 0"

definition digits_value :: "float_token list \<Rightarrow> nat" where
  "digits_value ds = foldl (\<lambda>a t. 10 * a + tdigit_val t) 0 ds"

definition parse_decimal :: "(nat \<Rightarrow> digit_class option) \<Rightarrow> py_str \<Rightarrow> py_error + real" where
  "parse_decimal ucd s =
     (let ts = map (float_token ucd) s;
          ip = takeWhile is_tdigit ts; rest = dropWhile is_tdigit ts
      in case rest of
           [] \<Rightarrow> if ip = [] then Inl ValueError else Inr (real (digits_value ip))
         | t # fp \<Rightarrow>
             if t = TDot \<and> list_all is_tdigit fp \<and> (ip \<noteq> [] \<or> fp \<noteq> [])
             then Inr (real (digits_value ip) + real (digits_value fp) / 10 ^ length fp)
             else Inl ValueError)"

definition py_float :: "(nat \<Rightarrow> digit_class option) \<Rightarrow> py_str \<Rightarrow> py_error + float64" where
  "py_float ucd s = (case parse_decimal ucd s of Inl e \<Rightarrow> Inl e | Inr x \<Rightarrow> Inr (fl x))"

text \<open>
  An excerpt of the Unicode table, for running the parser: the Arabic-Indic digits
  (code points 1632 to 1641) are decimal digits, the superscript two (code point 178)
  is a digit of another kind.
\<close>

definition ucd_excerpt :: "nat \<Rightarrow> digit_class option" where
  "ucd_excerpt ch =
     (if 1632 \<le> ch \<and> ch \<le> 1641 then Some (Decimal (ch - 1632))
      else if ch = 178 then Some Other_digit else None)"

text \<open>
  An RGB image as numpy sees it: rows of pixels, each channel an unsigned byte.
  \<^verbatim>\<open>np.mean\<close> and \<^verbatim>\<open>np.std\<close> flatten their argument; on an empty array they return
  \<^verbatim>\<open>nan\<close>, which is \<open>None\<close> here. \<^verbatim>\<open>np.clip(a, lo, hi)\<close> is
  \<^verbatim>\<open>minimum(hi, maximum(a, lo))\<close>.
\<close>

record pixel =
  chan_r :: "8 word"
  chan_g :: "8 word"
  chan_b :: "8 word"

type_synonym image = "pixel list list"

definition np_mean :: "real list \<Rightarrow> real option" where
  "np_mean xs = (if xs = [] then None else Some (sum_list xs / real (length xs)))"

definition np_std :: "real list \<Rightarrow> real option" where
  "np_std xs =
     (case np_mean xs of
        None \<Rightarrow> None
      | Some m \<Rightarrow> map_option sqrt (np_mean (map (\<lambda>x. \<bar>x - m\<bar> ^ 2) xs)))"

definition np_clip :: "real \<Rightarrow> real \<Rightarrow> real \<Rightarrow> real" where
  "np_clip a lo hi = min hi (max a lo)"

text \<open>
  The three status strings of the scripts: "Low water stress ...", "Moderate water
  stress ...", "High water stress ...".
\<close>

datatype stress_status = Low_water_stress | Moderate_water_stress | High_water_stress

subsection \<open>gemine.py\<close>

definition gemine_compute_weather_stress :: "real \<Rightarrow> real \<Rightarrow> real" where
  "gemine_compute_weather_stress temp_c humidity =
     (let temp_stress = max 0 (\<bar>temp_c - 25\<bar> / 20);
          hum_stress = max 0 (\<bar>humidity - 65\<bar> / 50)
      in min 1 ((temp_stress + hum_stress) / 2))"

definition gemine_soil_modifier :: "string \<Rightarrow> real" where
  "gemine_soil_modifier soil_type =
     (let s = py_lower soil_type
      in if py_in ''sandy'' s then 1.2
         else if py_in ''clay'' s then 1.1
         else if py_in ''loam'' s then 0.9
         else 1.0)"

text \<open>The dictionary \<^verbatim>\<open>base_water\<close> local to \<^verbatim>\<open>irrigation_recommendation\<close>.\<close>

definition gemine_base_water :: "string \<rightharpoonup> real" where
  "gemine_base_water = [''small'' \<mapsto> 0.5, ''medium'' \<mapsto> 1.5, ''large'' \<mapsto> 3.0]"

text \<open>
  \<^verbatim>\<open>base_water.get(plant_size, 1.5)\<close> is the inner \<open>case\<close> below. The parameter
  \<^verbatim>\<open>plant_size\<close> defaults to \<^verbatim>\<open>"medium"\<close>; a caller that leaves it out passes
  \<open>''medium''\<close> here. The product \<^verbatim>\<open>base * stress_score * 2\<close> is two float
  multiplications, and \<^verbatim>\<open>round\<close> is applied to their result.
\<close>

definition gemine_irrigation_recommendation :: "py_num \<Rightarrow> string \<Rightarrow> py_error + py_num" where
  "gemine_irrigation_recommendation stress_score plant_size =
     (case py_float_times (case gemine_base_water plant_size of Some b \<Rightarrow> b | None \<Rightarrow> 1.5)
             stress_score of
        Inl e \<Rightarrow> Inl e
      | Inr product \<Rightarrow> Inr (py_round2 (py_times_two product)))"

definition gemine_water_deficit_index :: "py_num \<Rightarrow> py_num" where
  "gemine_water_deficit_index stress_score = py_round2 stress_score"

definition gemine_compute_rgvi :: "image \<Rightarrow> real option" where
  "gemine_compute_rgvi img =
     (let arr = concat img;
          rgvi = map (\<lambda>p. let red = real (unat (chan_r p)); green = real (unat (chan_g p))
                           in (green - red) / (green + red + 1 / 100000)) arr
      in np_mean (map (\<lambda>x. np_clip x (- 1) 1) rgvi))"

text \<open>
  \<^verbatim>\<open>min(1.0, std_val / 50.0)\<close> keeps its first argument unless the second is smaller,
  so it is \<open>1.0\<close> when \<^verbatim>\<open>std_val\<close> is \<^verbatim>\<open>nan\<close>.
\<close>

definition gemine_confidence_from_rgvi :: "image \<Rightarrow> real" where
  "gemine_confidence_from_rgvi img =
     (let arr = concat img;
          std_val = np_std (map (\<lambda>p. real (unat (chan_g p))) arr)
      in case std_val of None \<Rightarrow> 1.0 | Some sd \<Rightarrow> min 1.0 (sd / 50.0))"

text \<open>
  \<^verbatim>\<open>get_accuracy_from_gemini\<close> from line 84 on, as a function of \<^verbatim>\<open>text\<close>, the
  stripped reply of the remote model. The \<^verbatim>\<open>try\<close> block has a bare \<^verbatim>\<open>except\<close> that
  returns \<^verbatim>\<open>None\<close>. The code point 46 is the decimal point.
\<close>

definition get_accuracy_from_gemini ::
  "(nat \<Rightarrow> digit_class option) \<Rightarrow> py_str \<Rightarrow> py_num option" where
  "get_accuracy_from_gemini ucd text =
     (let number = filter (\<lambda>ch. is_digit ucd ch \<or> ch = 46) text
      in case py_float ucd number of
           Inl e \<Rightarrow> None
         | Inr confidence_percent \<Rightarrow>
             Some (py_max2 (PyInt 0) (py_min2 (PyFloat confidence_percent) (PyInt 100))))"

text \<open>
  The module-level pipeline, lines 122 to 132 of \<^verbatim>\<open>gemine.py\<close>, as functions of the
  values it reads: the vegetation index \<^verbatim>\<open>rgvi_score\<close> and the three console inputs.
\<close>

definition gemine_ndvi_stress :: "real \<Rightarrow> real" where
  "gemine_ndvi_stress rgvi_score = 1 - max 0 (min 1 ((rgvi_score + 1) / 2))"

definition gemine_combined_stress :: "real \<Rightarrow> real \<Rightarrow> real \<Rightarrow> string \<Rightarrow> real" where
  "gemine_combined_stress rgvi_score temp_c humidity soil_type =
     (let ndvi_stress = gemine_ndvi_stress rgvi_score;
          weather_stress = gemine_compute_weather_stress temp_c humidity;
          combined_stress =
            (0.5 * ndvi_stress + 0.5 * weather_stress) * gemine_soil_modifier soil_type
      in min 1 combined_stress)"

definition gemine_stress_status :: "real \<Rightarrow> stress_status" where
  "gemine_stress_status combined_stress =
     (if combined_stress < 0.3 then Low_water_stress
      else if combined_stress < 0.6 then Moderate_water_stress
      else High_water_stress)"

subsection \<open>llava.py\<close>

definition llava_compute_weather_stress :: "real \<Rightarrow> real \<Rightarrow> real" where
  "llava_compute_weather_stress temp_c humidity =
     (let temp_stress = max 0 (\<bar>temp_c - 25\<bar> / 20);
          hum_stress = max 0 (\<bar>humidity - 65\<bar> / 50)
      in min 1 ((temp_stress + hum_stress) / 2))"

definition llava_soil_modifier :: "string \<Rightarrow> real" where
  "llava_soil_modifier soil_type =
     (let s = py_lower soil_type
      in if py_in ''sandy'' s then 1.2
         else if py_in ''clay'' s then 1.1
         else if py_in ''loam'' s then 0.9
         else 1.0)"

text \<open>The dictionary \<^verbatim>\<open>base_water\<close> local to \<^verbatim>\<open>irrigation_recommendation\<close>.\<close>

definition llava_base_water :: "string \<rightharpoonup> real" where
  "llava_base_water = [''small'' \<mapsto> 0.5, ''medium'' \<mapsto> 1.5, ''large'' \<mapsto> 3.0]"

text \<open>
  \<^verbatim>\<open>base_water.get(plant_size, 1.5)\<close> is the inner \<open>case\<close> below. The parameter
  \<^verbatim>\<open>plant_size\<close> defaults to \<^verbatim>\<open>"medium"\<close>; a caller that leaves it out passes
  \<open>''medium''\<close> here. The product \<^verbatim>\<open>base * stress_score * 2\<close> is two float
  multiplications, and \<^verbatim>\<open>round\<close> is applied to their result.
\<close>

definition llava_irrigation_recommendation :: "py_num \<Rightarrow> string \<Rightarrow> py_error + py_num" where
  "llava_irrigation_recommendation stress_score plant_size =
     (case py_float_times (case llava_base_water plant_size of Some b \<Rightarrow> b | None \<Rightarrow> 1.5)
             stress_score of
        Inl e \<Rightarrow> Inl e
      | Inr product \<Rightarrow> Inr (py_round2 (py_times_two product)))"

definition llava_water_deficit_index :: "py_num \<Rightarrow> py_num" where
  "llava_water_deficit_index stress_score = py_round2 stress_score"

definition llava_compute_rgvi :: "image \<Rightarrow> real option" where
  "llava_compute_rgvi img =
     (let arr = concat img;
          rgvi = map (\<lambda>p. let red = real (unat (chan_r p)); green = real (unat (chan_g p))
                           in (green - red) / (green + red + 1 / 100000)) arr
      in np_mean (map (\<lambda>x. np_clip x (- 1) 1) rgvi))"

text \<open>
  \<^verbatim>\<open>min(1.0, std_val / 50.0)\<close> keeps its first argument unless the second is smaller,
  so it is \<open>1.0\<close> when \<^verbatim>\<open>std_val\<close> is \<^verbatim>\<open>nan\<close>.
\<close>

definition llava_confidence_from_rgvi :: "image \<Rightarrow> real" where
  "llava_confidence_from_rgvi img =
     (let arr = concat img;
          std_val = np_std (map (\<lambda>p. real (unat (chan_g p))) arr)
      in case std_val of None \<Rightarrow> 1.0 | Some sd \<Rightarrow> min 1.0 (sd / 50.0))"

text \<open>
  \<^verbatim>\<open>get_accuracy_from_llm\<close> from line 133 on, as a function of \<^verbatim>\<open>result\<close>, the
  reply that \<^verbatim>\<open>ask_llm\<close> returned (an error string when the request failed).
\<close>

definition get_accuracy_from_llm ::
  "(nat \<Rightarrow> digit_class option) \<Rightarrow> py_str \<Rightarrow> py_num option" where
  "get_accuracy_from_llm ucd result =
     (case py_float ucd (filter (\<lambda>ch. is_digit ucd ch \<or> ch = 46) result) of
        Inl e \<Rightarrow> None
      | Inr confidence_percent \<Rightarrow>
          Some (py_min2 (PyFloat (Finite 100.0))
                  (py_max2 (PyFloat (Finite 0.0)) (PyFloat confidence_percent))))"

text \<open>
  The module-level pipeline, lines 170 to 184 of \<^verbatim>\<open>llava.py\<close>, as functions of the
  values it reads: the vegetation index \<^verbatim>\<open>rgvi_score\<close> and the three console inputs.
\<close>

definition llava_ndvi_stress :: "real \<Rightarrow> real" where
  "llava_ndvi_stress rgvi_score = 1 - max 0 (min 1 ((rgvi_score + 1) / 2))"

definition llava_combined_stress :: "real \<Rightarrow> real \<Rightarrow> real \<Rightarrow> string \<Rightarrow> real" where
  "llava_combined_stress rgvi_score temp_c humidity soil_type =
     (let ndvi_stress = llava_ndvi_stress rgvi_score;
          weather_stress = llava_compute_weather_stress temp_c humidity;
          combined_stress =
            (0.5 * ndvi_stress + 0.5 * weather_stress) * llava_soil_modifier soil_type
      in min 1 combined_stress)"

definition llava_stress_status :: "real \<Rightarrow> stress_status" where
  "llava_stress_status combined_stress =
     (if combined_stress < 0.3 then Low_water_stress
      else if combined_stress < 0.6 then Moderate_water_stress
      else High_water_stress)"

section \<open>Properties\<close>

subsection \<open>The built-ins\<close>

lemma starts_with_prefix: "starts_with s p \<longleftrightarrow> prefix p s"
  by (induction s p rule: starts_with.induct) auto

text \<open>\<open>py_in\<close> is the contiguous-sublist relation of the library.\<close>

lemma py_in_sublist: "py_in sub s \<longleftrightarrow> sublist sub s"
  by (induction s) (auto simp: starts_with_prefix sublist_Cons_right)

lemma char_lower_idem: "char_lower (char_lower c) = char_lower c"
  by (simp add: char_lower_def Let_def)

lemma py_lower_idem: "py_lower (py_lower s) = py_lower s"
  by (simp add: py_lower_def char_lower_idem)

text \<open>A lower-case keyword found in a string is found in its lower-cased form too.\<close>

lemma py_in_py_lower:
  assumes "py_in sub s" and "py_lower sub = sub"
  shows "py_in sub (py_lower s)"
proof -
  from assms(1) obtain ps ss where "s = ps @ sub @ ss"
    by (auto simp: py_in_sublist sublist_def)
  then have "py_lower s = py_lower ps @ py_lower sub @ py_lower ss"
    by (simp add: py_lower_def)
  with assms(2) show ?thesis
    by (auto simp: py_in_sublist sublist_def)
qed

lemma case_variant_py_lower:
  assumes "case_variant s t"
  shows "py_lower s = py_lower t"
  using assms unfolding case_variant_def py_lower_def
  by (induction rule: list_all2_induct) (auto simp: char_lower_idem)

lemma case_variant_py_lower_self: "case_variant (py_lower s) s"
  by (induction s) (auto simp: case_variant_def py_lower_def)

lemma round_half_even_abs: "\<bar>of_int (round_half_even y) - y\<bar> \<le> 1/2"
  unfolding round_half_even_def Let_def by (auto simp: abs_real_def) linarith+

lemma round_half_even_fix: "of_int (round_half_even y) = y \<longleftrightarrow> y \<in> \<int>"
proof
  assume "of_int (round_half_even y) = y"
  then have "y = of_int (round_half_even y)" by simp
  then show "y \<in> \<int>" by (metis Ints_of_int)
next
  assume "y \<in> \<int>"
  then have fl: "of_int \<lfloor>y\<rfloor> = y" by (auto simp add: Ints_def)
  show "of_int (round_half_even y) = y"
    by (simp add: round_half_even_def Let_def fl)
qed

lemma round_half_even_nonneg: "0 \<le> y \<Longrightarrow> 0 \<le> round_half_even y"
  unfolding round_half_even_def Let_def by auto

text \<open>Within a hundredth: the integer nearest to \<open>100 * x\<close> is within 0.005 of \<open>x\<close>.\<close>

lemma hundredth_error: "\<bar>of_int (round_half_even (x * 100)) / 100 - x\<bar> \<le> 1/200"
proof -
  have "\<bar>of_int (round_half_even (x * 100)) - x * 100\<bar> \<le> 1/2"
    by (rule round_half_even_abs)
  then show ?thesis
    by (simp add: abs_real_def field_simps split: if_splits)
qed

subsection \<open>Rounding to a double\<close>

lemma binary_exponent_bounds:
  assumes "0 < x"
  shows "2 powi (binary_exponent x) \<le> x \<and> x < 2 powi (binary_exponent x + 1)"
proof (cases "1 \<le> x")
  case True
  define f where "f = \<lfloor>x\<rfloor>"
  have f1: "1 \<le> f" using True by (simp add: f_def)
  then have f0: "0 < f" by simp
  have b1: "1 \<le> bitlen f" using f0 by (simp add: bitlen_alt_def)
  from bitlen_bounds [OF f0] have lo: "2 ^ nat (bitlen f - 1) \<le> f" and hi: "f < 2 ^ nat (bitlen f)"
    by auto
  have "real_of_int (2 ^ nat (bitlen f - 1)) \<le> real_of_int f"
    using lo by (simp only: of_int_le_iff)
  then have "(2::real) ^ nat (bitlen f - 1) \<le> real_of_int f"
    by (simp only: of_int_power of_int_numeral)
  moreover have "real_of_int f \<le> x" by (simp add: f_def)
  ultimately have l: "(2::real) ^ nat (bitlen f - 1) \<le> x" by linarith
  have "f + 1 \<le> 2 ^ nat (bitlen f)" using hi by simp
  then have "real_of_int (f + 1) \<le> real_of_int (2 ^ nat (bitlen f))"
    by (simp only: of_int_le_iff)
  then have "real_of_int (f + 1) \<le> (2::real) ^ nat (bitlen f)"
    by (simp only: of_int_power of_int_numeral)
  moreover have "x < real_of_int (f + 1)" unfolding f_def by linarith
  ultimately have h: "x < (2::real) ^ nat (bitlen f)" by linarith
  have e: "binary_exponent x = bitlen f - 1" using True by (simp add: binary_exponent_def f_def)
  show ?thesis using l h b1 by (simp add: e power_int_def)
next
  case False
  define c where "c = \<lceil>1 / x\<rceil>"
  define n where "n = c - 1"
  have x1: "x < 1" using False by simp
  have y1: "1 < 1 / x" using assms x1 by simp
  have c2: "2 \<le> c" using y1 by (simp add: c_def)
  have n0: "0 < n" using c2 by (simp add: n_def)
  have b1: "1 \<le> bitlen n" using n0 by (simp add: bitlen_alt_def)
  from bitlen_bounds [OF n0] have lo: "2 ^ nat (bitlen n - 1) \<le> n" and hi: "n < 2 ^ nat (bitlen n)"
    by auto
  have "c \<le> 2 ^ nat (bitlen n)" using hi by (simp add: n_def)
  then have "real_of_int c \<le> real_of_int (2 ^ nat (bitlen n))"
    by (simp only: of_int_le_iff)
  then have "real_of_int c \<le> (2::real) ^ nat (bitlen n)"
    by (simp only: of_int_power of_int_numeral)
  moreover have "1 / x \<le> real_of_int c" unfolding c_def by (rule le_of_int_ceiling)
  ultimately have u: "1 / x \<le> (2::real) ^ nat (bitlen n)" by linarith
  have "real_of_int (2 ^ nat (bitlen n - 1)) \<le> real_of_int n"
    using lo by (simp only: of_int_le_iff)
  then have "(2::real) ^ nat (bitlen n - 1) \<le> real_of_int n"
    by (simp only: of_int_power of_int_numeral)
  moreover have "real_of_int n < 1 / x" unfolding n_def c_def by linarith
  ultimately have l: "(2::real) ^ nat (bitlen n - 1) < 1 / x" by linarith
  have e: "binary_exponent x = - bitlen n" using False by (simp add: binary_exponent_def n_def c_def)
  have p1: "2 powi (- bitlen n) = 1 / (2::real) ^ nat (bitlen n)"
    using b1 by (simp add: power_int_def field_simps)
  have p2: "2 powi (- bitlen n + 1) = 1 / (2::real) ^ nat (bitlen n - 1)"
    using b1 by (simp add: power_int_def field_simps nat_diff_distrib)
  have A: "1 / (2::real) ^ nat (bitlen n) \<le> x"
    using u assms by (simp add: field_simps)
  have B: "x < 1 / (2::real) ^ nat (bitlen n - 1)"
    using l assms by (simp add: field_simps)
  show ?thesis unfolding e p1 p2 using A B by simp
qed

lemma binary_exponent_eq:
  assumes "0 < x" and "2 powi e \<le> x" and "x < 2 powi (e + 1)"
  shows "binary_exponent x = e"
proof -
  define b where "b = binary_exponent x"
  have lo: "2 powi b \<le> x" and hi: "x < 2 powi (b + 1)"
    using binary_exponent_bounds [OF assms(1)] by (simp_all add: b_def)
  have "\<not> b + 1 \<le> e"
  proof
    assume "b + 1 \<le> e"
    then have "(2::real) powi (b + 1) \<le> 2 powi e" by (intro power_int_increasing) simp_all
    with hi assms(2) show False by linarith
  qed
  moreover have "\<not> e + 1 \<le> b"
  proof
    assume "e + 1 \<le> b"
    then have "(2::real) powi (e + 1) \<le> 2 powi b" by (intro power_int_increasing) simp_all
    with lo assms(3) show False by linarith
  qed
  ultimately show ?thesis unfolding b_def by linarith
qed

text \<open>Rounding to a multiple of \<open>2 ^ q\<close> moves a number by at most half of \<open>2 ^ q\<close>.\<close>

lemma grid_error:
  fixes x :: real and q :: int
  shows "\<bar>of_int (round_half_even (x / 2 powi q)) * 2 powi q - x\<bar> \<le> 2 powi q / 2"
proof -
  have pos: "(0::real) < 2 powi q" by (simp add: power_int_def)
  have "\<bar>of_int (round_half_even (x / 2 powi q)) - x / 2 powi q\<bar> \<le> 1/2"
    by (rule round_half_even_abs)
  then have "\<bar>of_int (round_half_even (x / 2 powi q)) - x / 2 powi q\<bar> * 2 powi q
      \<le> 1/2 * 2 powi q"
    using pos by (simp only: mult_le_cancel_right_pos)
  moreover have "\<bar>of_int (round_half_even (x / 2 powi q)) - x / 2 powi q\<bar> * 2 powi q
      = \<bar>of_int (round_half_even (x / 2 powi q)) * 2 powi q - x\<bar>"
  proof -
    have "\<bar>of_int (round_half_even (x / 2 powi q)) - x / 2 powi q\<bar> * 2 powi q
        = \<bar>(of_int (round_half_even (x / 2 powi q)) - x / 2 powi q) * 2 powi q\<bar>"
      using pos by (simp add: abs_mult)
    also have "(of_int (round_half_even (x / 2 powi q)) - x / 2 powi q) * 2 powi q
        = of_int (round_half_even (x / 2 powi q)) * 2 powi q - x"
      using pos by (simp add: field_simps)
    finally show ?thesis .
  qed
  ultimately show ?thesis by simp
qed

lemma round_to_grid_error:
  assumes "x \<noteq> 0"
  shows "\<bar>round_to_grid x - x\<bar> \<le> \<bar>x\<bar> / 2 ^ 53 + 1 / 2 ^ 1075"
proof -
  define e where "e = binary_exponent \<bar>x\<bar>"
  define q where "q = max (e - 52) (- 1074)"
  have ax: "0 < \<bar>x\<bar>" using assms by simp
  have lo: "2 powi e \<le> \<bar>x\<bar>"
    using binary_exponent_bounds [OF ax] by (simp add: e_def)
  have err: "\<bar>round_to_grid x - x\<bar> \<le> 2 powi q / 2"
    unfolding round_to_grid_def Let_def q_def e_def by (rule grid_error)
  have "2 powi q / 2 \<le> \<bar>x\<bar> / 2 ^ 53 + 1 / 2 ^ 1075"
  proof (cases "- 1074 \<le> e - 52")
    case True
    then have "q = e - 52" by (simp add: q_def)
    then have "(2::real) powi q = 2 powi e / 2 powi 52"
      by (simp add: power_int_diff)
    then have "(2::real) powi q / 2 = 2 powi e / 2 ^ 53" by simp
    also have "\<dots> \<le> \<bar>x\<bar> / 2 ^ 53" using lo by (simp add: divide_right_mono)
    finally show ?thesis by simp
  next
    case False
    then have "q = - 1074" by (simp add: q_def)
    then have "(2::real) powi q / 2 = 1 / 2 ^ 1075" by (simp add: power_int_minus field_simps)
    then show ?thesis by simp
  qed
  with err show ?thesis by linarith
qed

lemma round_to_grid_nonneg: "0 \<le> x \<Longrightarrow> 0 \<le> round_to_grid x"
  unfolding round_to_grid_def Let_def
  by (simp add: round_half_even_nonneg power_int_def)

text \<open>A double is within half a unit in the last place of the number it rounds.\<close>

lemma fl_error:
  assumes "fl x = Finite y"
  shows "\<bar>y - x\<bar> \<le> \<bar>x\<bar> / 2 ^ 53 + 1 / 2 ^ 1075"
proof (cases "x = 0")
  case True
  with assms show ?thesis by (simp add: fl_def)
next
  case False
  with assms have "y = round_to_grid x" by (simp add: fl_def split: if_splits)
  with round_to_grid_error [OF False] show ?thesis by simp
qed

lemma fl_not_NaN: "fl x \<noteq> NaN"
  by (simp add: fl_def)

lemma fl_nonneg:
  assumes "0 \<le> x"
  shows "fl x \<noteq> NInf" and "fl x = Finite y \<Longrightarrow> 0 \<le> y"
  using round_to_grid_nonneg [OF assms] by (auto simp: fl_def split: if_splits)

lemma fl_finite:
  assumes "\<bar>x\<bar> \<le> 2 ^ 1023"
  shows "\<exists>y. fl x = Finite y"
proof (cases "x = 0")
  case True
  then show ?thesis by (simp add: fl_def)
next
  case False
  have "\<bar>round_to_grid x - x\<bar> \<le> \<bar>x\<bar> / 2 ^ 53 + 1 / 2 ^ 1075"
    by (rule round_to_grid_error [OF False])
  moreover have "\<bar>x\<bar> / 2 ^ 53 \<le> 2 ^ 1023 / 2 ^ 53" using assms by (simp add: divide_right_mono)
  ultimately have "\<bar>round_to_grid x\<bar> \<le> 2 ^ 1023 + 2 ^ 1023 / 2 ^ 53 + 1 / 2 ^ 1075"
    using assms by linarith
  also have "\<dots> < 2 ^ 1024" by simp
  finally have "\<bar>round_to_grid x\<bar> < 2 ^ 1024" .
  then show ?thesis using False by (auto simp: fl_def)
qed

text \<open>Evaluating \<open>fl\<close> at a number whose binary exponent is known.\<close>

lemma fl_eval:
  assumes "2 powi e \<le> \<bar>x\<bar>" and "\<bar>x\<bar> < 2 powi (e + 1)" and "- 1022 \<le> e" and "e \<le> 1022"
  shows "fl x = Finite (of_int (round_half_even (x / 2 powi (e - 52))) * 2 powi (e - 52))"
proof -
  have p: "(0::real) < 2 powi e" by (simp add: power_int_def)
  with assms(1) have ax: "0 < \<bar>x\<bar>" by linarith
  then have x0: "x \<noteq> 0" by auto
  have be: "binary_exponent \<bar>x\<bar> = e" by (rule binary_exponent_eq [OF ax assms(1,2)])
  have q: "max (e - 52) (- 1074) = e - 52" using assms(3) by simp
  have u: "round_to_grid x = of_int (round_half_even (x / 2 powi (e - 52))) * 2 powi (e - 52)"
    by (simp add: round_to_grid_def be q Let_def)
  have "\<bar>round_to_grid x - x\<bar> \<le> 2 powi (e - 52) / 2"
    unfolding u by (rule grid_error)
  moreover have "(2::real) powi (e - 52) / 2 \<le> 2 powi e"
  proof -
    have "(2::real) powi (e - 52) \<le> 2 powi e" by (intro power_int_increasing) simp_all
    with p show ?thesis by linarith
  qed
  moreover have "(2::real) powi (e + 1) = 2 * 2 powi e" by (simp add: power_int_add)
  moreover have "(2::real) powi e \<le> 2 powi 1022" using assms(4) by (intro power_int_increasing) simp_all
  moreover have "(2::real) powi 1022 = 2 ^ 1022" by simp
  ultimately have "\<bar>round_to_grid x\<bar> < 3 * 2 ^ 1022" using assms(2) by linarith
  moreover have "(3::real) * 2 ^ 1022 < 2 ^ 1024" by simp
  ultimately have "\<bar>round_to_grid x\<bar> < 2 ^ 1024" by linarith
  then have "fl x = Finite (round_to_grid x)" using x0 by (auto simp: fl_def)
  with u show ?thesis by simp
qed

text \<open>Some doubles: binary fractions are exact, 0.06, 0.01 and 0.02 are not.\<close>

lemma fl_0: "fl 0 = Finite 0"
  by (simp add: fl_def)

lemma fl_1: "fl 1 = Finite 1"
  by (subst fl_eval [where e = 0]) (simp_all add: round_half_even_def)

lemma fl_90: "fl 90 = Finite 90"
  by (subst fl_eval [where e = 6]) (simp_all add: round_half_even_def)

lemma fl_sixteenth: "fl (1/16) = Finite (1/16)"
  by (subst fl_eval [where e = "- 4"]) (simp_all add: round_half_even_def)

lemma fl_eighth: "fl (1/8) = Finite (1/8)"
  by (subst fl_eval [where e = "- 3"]) (simp_all add: round_half_even_def)

lemma fl_256th: "fl (1/256) = Finite (1/256)"
  by (subst fl_eval [where e = "- 8"]) (simp_all add: round_half_even_def)

lemma fl_128th: "fl (1/128) = Finite (1/128)"
  by (subst fl_eval [where e = "- 7"]) (simp_all add: round_half_even_def)

lemma fl_25_4: "fl (25/4) = Finite (25/4)"
  by (subst fl_eval [where e = 2]) (simp_all add: round_half_even_def)

lemma fl_25_64: "fl (25/64) = Finite (25/64)"
  by (subst fl_eval [where e = "- 2"]) (simp_all add: round_half_even_def)

lemma fl_25_32: "fl (25/32) = Finite (25/32)"
  by (subst fl_eval [where e = "- 1"]) (simp_all add: round_half_even_def)

lemma fl_3_50: "fl (3/50) = Finite (8646911284551352 / 2 ^ 57)"
  by (subst fl_eval [where e = "- 5"]) (simp_all add: round_half_even_def)

lemma fl_1_100: "fl (1/100) = Finite (5764607523034235 / 2 ^ 59)"
  by (subst fl_eval [where e = "- 7"]) (simp_all add: round_half_even_def)

lemma fl_1_50: "fl (1/50) = Finite (5764607523034235 / 2 ^ 58)"
  by (subst fl_eval [where e = "- 6"]) (simp_all add: round_half_even_def)

lemma fl_3_200: "fl (3/200) = Finite (8646911284551352 / 2 ^ 59)"
  by (subst fl_eval [where e = "- 7"]) (simp_all add: round_half_even_def)

lemma fl_3_2: "fl (3/2) = Finite (3/2)"
  by (subst fl_eval [where e = 0]) (simp_all add: round_half_even_def)

text \<open>
  The double product \<open>100 * 0.015\<close> is 1.5, a tie that numpy's \<^verbatim>\<open>rint\<close> sends to 2,
  whereas the exact value of the double 0.015 is below the tie.
\<close>

lemma fl_100_times_3_200:
  "fl (100 * (8646911284551352 / 2 ^ 59)) = Finite (3/2)"
  by (subst fl_eval [where e = 0]) (simp_all add: round_half_even_def)

subsection \<open>Rounding to two decimal places\<close>

lemma float_round2_Finite:
  "float_round2 (Finite x) = fl (of_int (round_half_even (x * 100)) / 100)"
  by (simp add: float_round2_def)

lemma np_round2_Finite:
  assumes "fl (100 * x) = Finite r"
  shows "np_round2 (Finite x) = fl (of_int (round_half_even r) / 100)"
  using assms by (simp add: np_round2_def fmul_pos_def frint_def fdiv_pos_def)

lemma np_hundredth_error:
  assumes "fl (100 * x) = Finite r"
  shows "\<bar>of_int (round_half_even r) / 100 - x\<bar> \<le> 1/200 + \<bar>x\<bar> / 2 ^ 53 + 1 / 2 ^ 1075"
proof -
  have a: "\<bar>of_int (round_half_even r) - r\<bar> \<le> 1/2"
    by (rule round_half_even_abs)
  have "\<bar>r - 100 * x\<bar> \<le> \<bar>100 * x\<bar> / 2 ^ 53 + 1 / 2 ^ 1075"
    by (rule fl_error [OF assms])
  moreover have "\<bar>100 * x\<bar> / 2 ^ 53 = 100 * (\<bar>x\<bar> / 2 ^ 53)" by (simp add: abs_mult)
  ultimately have b: "\<bar>r - 100 * x\<bar> \<le> 100 * (\<bar>x\<bar> / 2 ^ 53) + 1 / 2 ^ 1075" by simp
  have "\<bar>of_int (round_half_even r) - 100 * x\<bar> \<le> 1/2 + 100 * (\<bar>x\<bar> / 2 ^ 53) + 1 / 2 ^ 1075"
    using a b by linarith
  moreover have "\<bar>of_int (round_half_even r) / 100 - x\<bar>
      = \<bar>of_int (round_half_even r) - 100 * x\<bar> / 100"
    by (simp add: abs_real_def field_simps)
  ultimately have "\<bar>of_int (round_half_even r) / 100 - x\<bar>
      \<le> (1/2 + 100 * (\<bar>x\<bar> / 2 ^ 53) + 1 / 2 ^ 1075) / 100"
    by (simp add: divide_right_mono)
  also have "\<dots> \<le> 1/200 + \<bar>x\<bar> / 2 ^ 53 + 1 / 2 ^ 1075" by simp
  finally show ?thesis .
qed

text \<open>
  The two algorithms on the double 0.015: Python's \<^verbatim>\<open>round\<close> gives 0.01, numpy's
  gives 0.02.
\<close>

lemma round2_python_and_numpy_differ:
  "py_round2 (PyFloat (fl (3/200))) = PyFloat (fl (1/100))"
  "py_round2 (NpFloat64 (fl (3/200))) = NpFloat64 (fl (1/50))"
proof -
  show "py_round2 (PyFloat (fl (3/200))) = PyFloat (fl (1/100))"
    by (simp add: fl_3_200 float_round2_Finite round_half_even_def)
  have "np_round2 (Finite (8646911284551352 / 2 ^ 59)) = fl (of_int (round_half_even (3/2)) / 100)"
    by (rule np_round2_Finite [OF fl_100_times_3_200])
  then show "py_round2 (NpFloat64 (fl (3/200))) = NpFloat64 (fl (1/50))"
    by (simp add: fl_3_200 round_half_even_def)
qed

text \<open>
  The example of numpy's documentation: on the double 16.055 the built-in \<^verbatim>\<open>round\<close>
  gives 16.05 and \<^verbatim>\<open>np.round\<close> gives 16.06.
\<close>

lemma round2_documented_example:
  "fl (16.055) = Finite (2259540375544791 / 2 ^ 47)"
  "float_round2 (fl (16.055)) = fl (16.05)"
  "np_round2 (fl (16.055)) = fl (16.06)"
proof -
  show x: "fl (16.055) = Finite (2259540375544791 / 2 ^ 47)"
    by (subst fl_eval [where e = 4]) (simp_all add: round_half_even_def)
  have a: "fl (16.05) = Finite (4517673376206029 / 2 ^ 48)"
    by (subst fl_eval [where e = 4]) (simp_all add: round_half_even_def)
  have b: "fl (16.06) = Finite (4520488125973135 / 2 ^ 48)"
    by (subst fl_eval [where e = 4]) (simp_all add: round_half_even_def)
  have k: "round_half_even (2259540375544791 / 2 ^ 47 * 100) = 1605"
    by (simp add: round_half_even_def)
  show "float_round2 (fl (16.055)) = fl (16.05)"
    unfolding x a float_round2_Finite k
    by (subst fl_eval [where e = 4]) (simp_all add: round_half_even_def)
  have m: "fl (100 * (2259540375544791 / 2 ^ 47)) = Finite (3211 / 2 ^ 1)"
    by (subst fl_eval [where e = 10]) (simp_all add: round_half_even_def)
  have k': "round_half_even (3211 / 2 ^ 1) = 1606"
    by (simp add: round_half_even_def)
  show "np_round2 (fl (16.055)) = fl (16.06)"
    unfolding x b np_round2_Finite [OF m] k'
    by (subst fl_eval [where e = 4]) (simp_all add: round_half_even_def)
qed

subsection \<open>The two files agree\<close>

lemma llava_compute_rgvi_eq: "llava_compute_rgvi = gemine_compute_rgvi"
  by (simp add: fun_eq_iff llava_compute_rgvi_def gemine_compute_rgvi_def)

lemma llava_compute_weather_stress_eq:
  "llava_compute_weather_stress = gemine_compute_weather_stress"
  by (simp add: fun_eq_iff llava_compute_weather_stress_def gemine_compute_weather_stress_def)

lemma llava_soil_modifier_eq: "llava_soil_modifier = gemine_soil_modifier"
  by (simp add: fun_eq_iff llava_soil_modifier_def gemine_soil_modifier_def)

lemma llava_base_water_eq: "llava_base_water = gemine_base_water"
  by (simp add: llava_base_water_def gemine_base_water_def)

lemma llava_irrigation_recommendation_eq:
  "llava_irrigation_recommendation = gemine_irrigation_recommendation"
  by (simp add: fun_eq_iff llava_irrigation_recommendation_def
      gemine_irrigation_recommendation_def llava_base_water_eq)

lemma llava_confidence_from_rgvi_eq: "llava_confidence_from_rgvi = gemine_confidence_from_rgvi"
  by (simp add: fun_eq_iff llava_confidence_from_rgvi_def gemine_confidence_from_rgvi_def)

lemma llava_water_deficit_index_eq: "llava_water_deficit_index = gemine_water_deficit_index"
  by (simp add: fun_eq_iff llava_water_deficit_index_def gemine_water_deficit_index_def)

lemma llava_combined_stress_eq: "llava_combined_stress = gemine_combined_stress"
  by (simp add: fun_eq_iff llava_combined_stress_def gemine_combined_stress_def
      llava_ndvi_stress_def gemine_ndvi_stress_def
      llava_compute_weather_stress_eq llava_soil_modifier_eq)

lemma llava_stress_status_eq: "llava_stress_status = gemine_stress_status"
  by (simp add: fun_eq_iff llava_stress_status_def gemine_stress_status_def)

subsection \<open>Facts about one file\<close>

lemma gemine_soil_modifier_pos: "0 < gemine_soil_modifier s"
  by (simp add: gemine_soil_modifier_def Let_def)

lemma gemine_ndvi_stress_range: "0 \<le> gemine_ndvi_stress v \<and> gemine_ndvi_stress v \<le> 1"
  by (simp add: gemine_ndvi_stress_def min_def max_def)

lemma gemine_compute_weather_stress_range:
  "0 \<le> gemine_compute_weather_stress t h \<and> gemine_compute_weather_stress t h \<le> 1"
  by (simp add: gemine_compute_weather_stress_def Let_def min_def max_def)

lemma gemine_combined_stress_range:
  "0 \<le> gemine_combined_stress v t h s \<and> gemine_combined_stress v t h s \<le> 1"
proof -
  have "0 \<le> 0.5 * gemine_ndvi_stress v + 0.5 * gemine_compute_weather_stress t h"
    using gemine_ndvi_stress_range [of v] gemine_compute_weather_stress_range [of t h] by simp
  then have "0 \<le> (0.5 * gemine_ndvi_stress v + 0.5 * gemine_compute_weather_stress t h)
                 * gemine_soil_modifier s"
    using gemine_soil_modifier_pos [of s] by (simp add: less_imp_le)
  then show ?thesis
    by (simp add: gemine_combined_stress_def Let_def)
qed

lemma gemine_weather_stress_mono_temp:
  "\<bar>t1 - 25\<bar> \<le> \<bar>t2 - 25\<bar> \<Longrightarrow>
   gemine_compute_weather_stress t1 h \<le> gemine_compute_weather_stress t2 h"
  by (simp add: gemine_compute_weather_stress_def Let_def min_def max_def)

lemma gemine_weather_stress_mono_hum:
  "\<bar>h1 - 65\<bar> \<le> \<bar>h2 - 65\<bar> \<Longrightarrow>
   gemine_compute_weather_stress t h1 \<le> gemine_compute_weather_stress t h2"
  by (simp add: gemine_compute_weather_stress_def Let_def min_def max_def)

lemma gemine_soil_modifier_lower:
  "gemine_soil_modifier s =
     (if py_in ''sandy'' (py_lower s) then 1.2
      else if py_in ''clay'' (py_lower s) then 1.1
      else if py_in ''loam'' (py_lower s) then 0.9 else 1.0)"
  by (simp add: gemine_soil_modifier_def Let_def)

lemma gemine_base_water_lookup:
  "(case gemine_base_water plant_size of Some b \<Rightarrow> b | None \<Rightarrow> 1.5) =
     (if plant_size = ''small'' then 0.5 else if plant_size = ''large'' then 3.0 else 1.5)"
  by (simp add: gemine_base_water_def)

subsection \<open>The float product of \<open>irrigation_recommendation\<close>\<close>

lemma fl_32nd: "fl (1/32) = Finite (1/32)"
  by (subst fl_eval [where e = "- 5"]) (simp_all add: round_half_even_def)

lemma fl_512th: "fl (1/512) = Finite (1/512)"
  by (subst fl_eval [where e = "- 9"]) (simp_all add: round_half_even_def)

lemma fl_2: "fl 2 = Finite 2"
  by (subst fl_eval [where e = 1]) (simp_all add: round_half_even_def)

lemma fl_half: "fl (1/2) = Finite (1/2)"
  by (subst fl_eval [where e = "- 1"]) (simp_all add: round_half_even_def)

lemma fmul_pos_Finite:
  assumes "fmul_pos c (fl z) = Finite p"
  shows "\<exists>p1. fl z = Finite p1 \<and> fl (c * p1) = Finite p"
  using assms by (cases "fl z") (simp_all add: fmul_pos_def)

text \<open>Two roundings, of \<open>b * x\<close> and of its double, stay close to \<open>b * x * 2\<close>.\<close>

lemma product_error:
  assumes "fl (b * x) = Finite p1" and "fl (2 * p1) = Finite p"
  shows "\<bar>p - b * x * 2\<bar> \<le> \<bar>b * x * 2\<bar> / 2 ^ 51 + 1 / 2 ^ 1073"
proof -
  define z where "z = b * x"
  define u where "u = \<bar>z\<bar> / 2 ^ 53"
  define t where "t = (1 / 2 ^ 1075 :: real)"
  have t0: "0 \<le> t" by (simp add: t_def)
  have u0: "0 \<le> u" by (simp add: u_def)
  have uz: "u \<le> \<bar>z\<bar>" unfolding u_def by (simp add: field_simps)
  have a: "\<bar>p1 - z\<bar> \<le> u + t"
    unfolding u_def t_def z_def by (rule fl_error [OF assms(1)])
  have "\<bar>p - 2 * p1\<bar> \<le> \<bar>2 * p1\<bar> / 2 ^ 53 + t"
    unfolding t_def by (rule fl_error [OF assms(2)])
  moreover have "\<bar>2 * p1\<bar> / 2 ^ 53 = 2 * (\<bar>p1\<bar> / 2 ^ 53)" by (simp add: abs_mult)
  ultimately have b: "\<bar>p - 2 * p1\<bar> \<le> 2 * (\<bar>p1\<bar> / 2 ^ 53) + t" by simp
  from a uz have p1: "\<bar>p1\<bar> \<le> 2 * \<bar>z\<bar> + t" by linarith
  have "\<bar>p1\<bar> / 2 ^ 53 \<le> (2 * \<bar>z\<bar> + t) / 2 ^ 53"
    using p1 by (rule divide_right_mono) simp
  also have "\<dots> = 2 * u + t / 2 ^ 53" by (simp add: u_def add_divide_distrib)
  finally have c: "\<bar>p1\<bar> / 2 ^ 53 \<le> 2 * u + t / 2 ^ 53" .
  have "t / 2 ^ 53 \<le> t / 2"
    using t0 by (intro divide_left_mono) simp_all
  with c have c': "\<bar>p1\<bar> / 2 ^ 53 \<le> 2 * u + t / 2" by linarith
  define v where "v = \<bar>p1\<bar> / 2 ^ 53"
  from b have b': "\<bar>p - 2 * p1\<bar> \<le> 2 * v + t" by (simp add: v_def)
  from c' have c'': "v \<le> 2 * u + t / 2" by (simp add: v_def)
  from a b' c'' u0 t0 have "\<bar>p - 2 * z\<bar> \<le> 8 * u + 4 * t" by linarith
  moreover have "8 * u = \<bar>b * x * 2\<bar> / 2 ^ 51" by (simp add: u_def z_def abs_mult)
  moreover have "4 * t = 1 / 2 ^ 1073" by (simp add: t_def)
  moreover have "2 * z = b * x * 2" by (simp add: z_def)
  ultimately show ?thesis by simp
qed

text \<open>A double of moderate size doubles its magnitude at most, when rounded.\<close>

lemma fl_magnitude:
  assumes "fl z = Finite y"
  shows "\<bar>y\<bar> \<le> 2 * \<bar>z\<bar> + 1"
proof -
  have "\<bar>y - z\<bar> \<le> \<bar>z\<bar> / 2 ^ 53 + 1 / 2 ^ 1075"
    by (rule fl_error [OF assms])
  moreover have "\<bar>z\<bar> / 2 ^ 53 \<le> \<bar>z\<bar>" by (simp add: field_simps)
  moreover have "(1 / 2 ^ 1075 :: real) \<le> 1" by simp
  ultimately show ?thesis by linarith
qed

lemma product_finite:
  assumes "0 < b" and "b \<le> 3" and "\<bar>x\<bar> \<le> 2 ^ 1000"
  shows "\<exists>p r. fmul_pos 2 (fl (b * x)) = Finite p \<and> fl (100 * p) = Finite r"
proof -
  have "\<bar>b * x\<bar> = b * \<bar>x\<bar>" using assms(1) by (simp add: abs_mult)
  also have "\<dots> \<le> 3 * 2 ^ 1000"
    using assms by (intro mult_mono) simp_all
  finally have bx: "\<bar>b * x\<bar> \<le> 3 * 2 ^ 1000" .
  then have "\<bar>b * x\<bar> \<le> 2 ^ 1023" by simp
  then obtain p1 where p1: "fl (b * x) = Finite p1" using fl_finite by blast
  from fl_magnitude [OF p1] bx have b1: "\<bar>p1\<bar> \<le> 6 * 2 ^ 1000 + 1" by linarith
  have "\<bar>2 * p1\<bar> = 2 * \<bar>p1\<bar>" by (simp add: abs_mult)
  with b1 have b2: "\<bar>2 * p1\<bar> \<le> 12 * 2 ^ 1000 + 2" by linarith
  then have "\<bar>2 * p1\<bar> \<le> 2 ^ 1023" by simp
  then obtain p where p: "fl (2 * p1) = Finite p" using fl_finite by blast
  from fl_magnitude [OF p] b2 have b3: "\<bar>p\<bar> \<le> 24 * 2 ^ 1000 + 5" by linarith
  have "\<bar>100 * p\<bar> = 100 * \<bar>p\<bar>" by (simp add: abs_mult)
  with b3 have "\<bar>100 * p\<bar> \<le> 2400 * 2 ^ 1000 + 500" by linarith
  then have "\<bar>100 * p\<bar> \<le> 2 ^ 1023" by simp
  then obtain r where r: "fl (100 * p) = Finite r" using fl_finite by blast
  from p1 p r show ?thesis by (auto simp: fmul_pos_def)
qed

lemma gemine_irrigation_float:
  "gemine_irrigation_recommendation (PyFloat (Finite x)) plant_size =
     Inr (PyFloat (float_round2 (fmul_pos 2
       (fl ((if plant_size = ''small'' then 0.5
             else if plant_size = ''large'' then 3.0 else 1.5) * x)))))"
  by (simp add: gemine_irrigation_recommendation_def gemine_base_water_lookup fmul_pos_def)

lemma gemine_irrigation_float64:
  "gemine_irrigation_recommendation (NpFloat64 (Finite x)) plant_size =
     Inr (NpFloat64 (np_round2 (fmul_pos 2
       (fl ((if plant_size = ''small'' then 0.5
             else if plant_size = ''large'' then 3.0 else 1.5) * x)))))"
  by (simp add: gemine_irrigation_recommendation_def gemine_base_water_lookup fmul_pos_def)

lemma gemine_irrigation_int:
  assumes "fl (of_int i) = Finite y"
  shows "gemine_irrigation_recommendation (PyInt i) plant_size =
     gemine_irrigation_recommendation (PyFloat (Finite y)) plant_size"
  using assms by (simp add: gemine_irrigation_recommendation_def)

subsection \<open>The confidence parser\<close>

lemma parse_decimal_nonneg: "parse_decimal ucd s = Inr x \<Longrightarrow> 0 \<le> x"
  by (auto simp: parse_decimal_def Let_def split: list.splits if_splits)

lemma parse_decimal_error: "parse_decimal ucd s = Inl e \<Longrightarrow> e = ValueError"
  by (auto simp: parse_decimal_def Let_def split: list.splits if_splits)

text \<open>The two clamps, on a non-negative finite float and on \<^verbatim>\<open>inf\<close>.\<close>

lemma gemini_clamp_Finite:
  assumes "0 \<le> r"
  shows "num_float (py_max2 (PyInt 0) (py_min2 (PyFloat (Finite r)) (PyInt 100)))
           = Finite (min r 100)"
  using assms by (simp add: py_max2_def py_min2_def py_less_def min_def)

lemma gemini_clamp_PInf:
  "py_max2 (PyInt 0) (py_min2 (PyFloat PInf) (PyInt 100)) = PyInt 100"
  by (simp add: py_max2_def py_min2_def py_less_def)

lemma llm_clamp_Finite:
  assumes "0 \<le> r"
  shows "num_float (py_min2 (PyFloat (Finite 100.0))
                     (py_max2 (PyFloat (Finite 0.0)) (PyFloat (Finite r))))
           = Finite (min r 100)"
  using assms by (simp add: py_max2_def py_min2_def py_less_def min_def)

lemma llm_clamp_PInf:
  "py_min2 (PyFloat (Finite 100.0)) (py_max2 (PyFloat (Finite 0.0)) (PyFloat PInf))
     = PyFloat (Finite 100)"
  by (simp add: py_max2_def py_min2_def py_less_def)

lemma get_accuracy_unfold:
  assumes "parse_decimal ucd (filter (\<lambda>ch. is_digit ucd ch \<or> ch = 46) reply) = Inr x"
  shows "get_accuracy_from_gemini ucd reply
           = Some (py_max2 (PyInt 0) (py_min2 (PyFloat (fl x)) (PyInt 100)))"
    and "get_accuracy_from_llm ucd reply
           = Some (py_min2 (PyFloat (Finite 100.0))
                     (py_max2 (PyFloat (Finite 0.0)) (PyFloat (fl x))))"
  using assms by (simp_all add: get_accuracy_from_gemini_def get_accuracy_from_llm_def
      py_float_def Let_def)

lemma get_accuracy_fail:
  assumes "parse_decimal ucd (filter (\<lambda>ch. is_digit ucd ch \<or> ch = 46) reply) = Inl e"
  shows "get_accuracy_from_gemini ucd reply = None"
    and "get_accuracy_from_llm ucd reply = None"
  using assms by (simp_all add: get_accuracy_from_gemini_def get_accuracy_from_llm_def
      py_float_def Let_def)

lemma fl_850: "fl 850 = Finite 850"
  by (subst fl_eval [where e = 9]) (simp_all add: round_half_even_def)

lemma fl_175_2: "fl (175/2) = Finite (175/2)"
  by (subst fl_eval [where e = 6]) (simp_all add: round_half_even_def)

text \<open>
  The parser on some replies, with the excerpt of the Unicode table: prose around a
  number, a fraction, a number above 100 (an \<^verbatim>\<open>int\<close> from the one file, a float from
  the other), a second point, the reply "85" followed by a superscript two, and "90"
  in Arabic-Indic digits.
\<close>

lemma get_accuracy_examples:
  "get_accuracy_from_gemini ucd_excerpt (ascii ''I am 90% sure.'') = Some (PyFloat (Finite 90))"
  "get_accuracy_from_llm ucd_excerpt (ascii ''87.5'') = Some (PyFloat (Finite (175/2)))"
  "get_accuracy_from_gemini ucd_excerpt (ascii ''about 850'') = Some (PyInt 100)"
  "get_accuracy_from_llm ucd_excerpt (ascii ''about 850'') = Some (PyFloat (Finite 100))"
  "get_accuracy_from_gemini ucd_excerpt (ascii ''Confidence: 85.5. Thanks.'') = None"
  "get_accuracy_from_llm ucd_excerpt (ascii ''Error: LLM failed'') = None"
  "get_accuracy_from_gemini ucd_excerpt [56, 53, 178] = None"
  "get_accuracy_from_llm ucd_excerpt [1641, 1632] = Some (PyFloat (Finite 90))"
proof -
  have p1: "parse_decimal ucd_excerpt
      (filter (\<lambda>ch. is_digit ucd_excerpt ch \<or> ch = 46) (ascii ''I am 90% sure.'')) = Inr 90"
    by code_simp
  have p2: "parse_decimal ucd_excerpt
      (filter (\<lambda>ch. is_digit ucd_excerpt ch \<or> ch = 46) (ascii ''87.5'')) = Inr (175/2)"
    by code_simp
  have p3: "parse_decimal ucd_excerpt
      (filter (\<lambda>ch. is_digit ucd_excerpt ch \<or> ch = 46) (ascii ''about 850'')) = Inr 850"
    by code_simp
  have p4: "parse_decimal ucd_excerpt
      (filter (\<lambda>ch. is_digit ucd_excerpt ch \<or> ch = 46) (ascii ''Confidence: 85.5. Thanks.''))
      = Inl ValueError"
    by code_simp
  have p5: "parse_decimal ucd_excerpt
      (filter (\<lambda>ch. is_digit ucd_excerpt ch \<or> ch = 46) (ascii ''Error: LLM failed''))
      = Inl ValueError"
    by code_simp
  have p6: "parse_decimal ucd_excerpt
      (filter (\<lambda>ch. is_digit ucd_excerpt ch \<or> ch = 46) [56, 53, 178]) = Inl ValueError"
    by code_simp
  have p7: "parse_decimal ucd_excerpt
      (filter (\<lambda>ch. is_digit ucd_excerpt ch \<or> ch = 46) [1641, 1632]) = Inr 90"
    by code_simp
  show "get_accuracy_from_gemini ucd_excerpt (ascii ''I am 90% sure.'') = Some (PyFloat (Finite 90))"
    unfolding get_accuracy_unfold(1) [OF p1]
    by (simp add: fl_90 py_max2_def py_min2_def py_less_def)
  show "get_accuracy_from_llm ucd_excerpt (ascii ''87.5'') = Some (PyFloat (Finite (175/2)))"
    unfolding get_accuracy_unfold(2) [OF p2]
    by (simp add: fl_175_2 py_max2_def py_min2_def py_less_def)
  show "get_accuracy_from_gemini ucd_excerpt (ascii ''about 850'') = Some (PyInt 100)"
    unfolding get_accuracy_unfold(1) [OF p3]
    by (simp add: fl_850 py_max2_def py_min2_def py_less_def)
  show "get_accuracy_from_llm ucd_excerpt (ascii ''about 850'') = Some (PyFloat (Finite 100))"
    unfolding get_accuracy_unfold(2) [OF p3]
    by (simp add: fl_850 py_max2_def py_min2_def py_less_def)
  show "get_accuracy_from_gemini ucd_excerpt (ascii ''Confidence: 85.5. Thanks.'') = None"
    by (rule get_accuracy_fail(1) [OF p4])
  show "get_accuracy_from_llm ucd_excerpt (ascii ''Error: LLM failed'') = None"
    by (rule get_accuracy_fail(2) [OF p5])
  show "get_accuracy_from_gemini ucd_excerpt [56, 53, 178] = None"
    by (rule get_accuracy_fail(1) [OF p6])
  show "get_accuracy_from_llm ucd_excerpt [1641, 1632] = Some (PyFloat (Finite 90))"
    unfolding get_accuracy_unfold(2) [OF p7]
    by (simp add: fl_90 py_max2_def py_min2_def py_less_def)
qed

section \<open>The claims\<close>

text \<open>
  C1. For every vegetation index, temperature, humidity and soil-type string, the
  combined stress score, computed as
  \<open>(0.5 * vegStress + 0.5 * weatherStress) * soil_modifier\<close> followed by the final
  clamp, lies in the interval from 0 to 1. It holds in both files.
\<close>

theorem combined_stress_in_unit_interval:
  "0 \<le> llava_combined_stress rgvi_score temp_c humidity soil_type
   \<and> llava_combined_stress rgvi_score temp_c humidity soil_type \<le> 1
   \<and> 0 \<le> gemine_combined_stress rgvi_score temp_c humidity soil_type
   \<and> gemine_combined_stress rgvi_score temp_c humidity soil_type \<le> 1"
  using gemine_combined_stress_range [of rgvi_score temp_c humidity soil_type]
  by (simp add: llava_combined_stress_eq)

text \<open>
  C2. \<open>compute_weather_stress 25 65\<close> is 0; for a fixed humidity the result does not
  decrease when the absolute deviation of the temperature from 25 grows; for a fixed
  temperature it does not decrease when the absolute deviation of the humidity from 65
  grows; and the result is at most 1 for every pair of inputs.
\<close>

theorem compute_weather_stress_ideal_monotone_capped:
  "gemine_compute_weather_stress 25 65 = 0
   \<and> llava_compute_weather_stress 25 65 = 0
   \<and> (\<bar>t1 - 25\<bar> \<le> \<bar>t2 - 25\<bar> \<longrightarrow>
        gemine_compute_weather_stress t1 h \<le> gemine_compute_weather_stress t2 h
        \<and> llava_compute_weather_stress t1 h \<le> llava_compute_weather_stress t2 h)
   \<and> (\<bar>h1 - 65\<bar> \<le> \<bar>h2 - 65\<bar> \<longrightarrow>
        gemine_compute_weather_stress t h1 \<le> gemine_compute_weather_stress t h2
        \<and> llava_compute_weather_stress t h1 \<le> llava_compute_weather_stress t h2)
   \<and> gemine_compute_weather_stress t h \<le> 1
   \<and> llava_compute_weather_stress t h \<le> 1"
proof -
  have ideal: "gemine_compute_weather_stress 25 65 = 0"
    by (simp add: gemine_compute_weather_stress_def)
  show ?thesis
    using ideal gemine_weather_stress_mono_temp [of t1 t2 h]
      gemine_weather_stress_mono_hum [of h1 h2 t]
      gemine_compute_weather_stress_range [of t h]
    by (simp add: llava_compute_weather_stress_eq)
qed

theorem compute_weather_stress_ideal_monotone_capped_witness:
  "\<bar>(30::real) - 25\<bar> \<le> \<bar>45 - 25\<bar>
   \<and> gemine_compute_weather_stress 30 50 \<le> gemine_compute_weather_stress 45 50
   \<and> llava_compute_weather_stress 30 50 \<le> llava_compute_weather_stress 45 50
   \<and> \<bar>(60::real) - 65\<bar> \<le> \<bar>10 - 65\<bar>
   \<and> gemine_compute_weather_stress 20 60 \<le> gemine_compute_weather_stress 20 10
   \<and> llava_compute_weather_stress 20 60 \<le> llava_compute_weather_stress 20 10"
  using compute_weather_stress_ideal_monotone_capped [of 30 45 50 60 10 20]
  by simp

text \<open>
  C3. End to end: with vegetation index \<open>-1\<close>, temperature 45, humidity 10 and soil
  string "sandy", the combined stress score is exactly 1 (the clamp applies) and the
  status is the high-water-stress one.
\<close>

theorem end_to_end_high_stress:
  "llava_combined_stress (- 1) 45 10 ''sandy'' = 1
   \<and> llava_stress_status (llava_combined_stress (- 1) 45 10 ''sandy'') = High_water_stress
   \<and> gemine_combined_stress (- 1) 45 10 ''sandy'' = 1
   \<and> gemine_stress_status (gemine_combined_stress (- 1) 45 10 ''sandy'') = High_water_stress"
proof -
  have soil: "gemine_soil_modifier ''sandy'' = 1.2"
    by (simp add: gemine_soil_modifier_def py_lower_def char_lower_def)
  have "gemine_combined_stress (- 1) 45 10 ''sandy'' = 1"
    by (simp add: gemine_combined_stress_def gemine_ndvi_stress_def
        gemine_compute_weather_stress_def soil)
  then show ?thesis
    by (simp add: llava_combined_stress_eq llava_stress_status_eq gemine_stress_status_def)
qed

text \<open>
  C4. End to end: with vegetation index 1, temperature 25, humidity 65 and soil string
  "loam", the combined stress score is 0 and the status is the low-water-stress one.
\<close>

theorem end_to_end_low_stress:
  "llava_combined_stress 1 25 65 ''loam'' = 0
   \<and> llava_stress_status (llava_combined_stress 1 25 65 ''loam'') = Low_water_stress
   \<and> gemine_combined_stress 1 25 65 ''loam'' = 0
   \<and> gemine_stress_status (gemine_combined_stress 1 25 65 ''loam'') = Low_water_stress"
proof -
  have "gemine_combined_stress 1 25 65 ''loam'' = 0"
    by (simp add: gemine_combined_stress_def gemine_ndvi_stress_def
        gemine_compute_weather_stress_def)
  then show ?thesis
    by (simp add: llava_combined_stress_eq llava_stress_status_eq gemine_stress_status_def)
qed


text \<open>
  C5, as amended. \<open>irrigation_recommendation 0 ''small''\<close> is 0. For every plant size
  the returned volume is not the product \<open>base * stress_score * 2\<close> itself but that
  product rounded to two decimal places, where the base is 0.5 for "small", 3.0 for
  "large" and 1.5 for "medium" and for every unrecognised size string. The product
  \<open>p\<close> is computed in floats and is within a few rounding errors of the exact one.
  For a Python \<^verbatim>\<open>float\<close> score the volume is the double nearest to \<open>k/100\<close>, with \<open>k\<close>
  the integer nearest to \<open>100 * p\<close>, so \<open>k/100\<close> is within 0.005 of \<open>p\<close>; for a numpy
  \<^verbatim>\<open>float64\<close> score \<open>k\<close> is the integer nearest to the double product \<open>100 * p\<close>, so
  \<open>k/100\<close> is within 0.005 and one rounding error of \<open>p\<close>. An \<^verbatim>\<open>int\<close> score is
  converted to a float first. Both files do the same.
\<close>

theorem irrigation_recommendation_rounded_product:
  "(let b = (if plant_size = ''small'' then 0.5
             else if plant_size = ''large'' then 3.0 else 1.5)
    in gemine_irrigation_recommendation (PyInt 0) ''small'' = Inr (PyFloat (Finite 0))
       \<and> (\<forall>p. fmul_pos 2 (fl (b * x)) = Finite p \<longrightarrow>
             gemine_irrigation_recommendation (PyFloat (Finite x)) plant_size
               = Inr (PyFloat (fl (of_int (round_half_even (p * 100)) / 100)))
             \<and> \<bar>of_int (round_half_even (p * 100)) / 100 - p\<bar> \<le> 1/200
             \<and> \<bar>p - b * x * 2\<bar> \<le> \<bar>b * x * 2\<bar> / 2 ^ 51 + 1 / 2 ^ 1073)
       \<and> (\<forall>p r. fmul_pos 2 (fl (b * x)) = Finite p \<and> fl (100 * p) = Finite r \<longrightarrow>
             gemine_irrigation_recommendation (NpFloat64 (Finite x)) plant_size
               = Inr (NpFloat64 (fl (of_int (round_half_even r) / 100)))
             \<and> \<bar>of_int (round_half_even r) / 100 - p\<bar> \<le> 1/200 + \<bar>p\<bar> / 2 ^ 53 + 1 / 2 ^ 1075)
       \<and> (\<bar>x\<bar> \<le> 2 ^ 1000 \<longrightarrow>
             (\<exists>p r. fmul_pos 2 (fl (b * x)) = Finite p \<and> fl (100 * p) = Finite r))
       \<and> (\<forall>y. fl (of_int i) = Finite y \<longrightarrow>
             gemine_irrigation_recommendation (PyInt i) plant_size
               = gemine_irrigation_recommendation (PyFloat (Finite y)) plant_size)
       \<and> llava_irrigation_recommendation stress_score plant_size
           = gemine_irrigation_recommendation stress_score plant_size)"
proof -
  define b :: real where
    "b = (if plant_size = ''small'' then 0.5 else if plant_size = ''large'' then 3.0 else 1.5)"
  have b_range: "0 < b" "b \<le> 3" by (simp_all add: b_def)
  have zero: "gemine_irrigation_recommendation (PyInt 0) ''small'' = Inr (PyFloat (Finite 0))"
    by (simp add: gemine_irrigation_recommendation_def gemine_base_water_def fl_0
        fmul_pos_def float_round2_def round_half_even_def)
  have py: "gemine_irrigation_recommendation (PyFloat (Finite x)) plant_size
               = Inr (PyFloat (fl (of_int (round_half_even (p * 100)) / 100)))
             \<and> \<bar>of_int (round_half_even (p * 100)) / 100 - p\<bar> \<le> 1/200
             \<and> \<bar>p - b * x * 2\<bar> \<le> \<bar>b * x * 2\<bar> / 2 ^ 51 + 1 / 2 ^ 1073"
    if "fmul_pos 2 (fl (b * x)) = Finite p" for p
  proof -
    from fmul_pos_Finite [OF that] obtain p1
      where "fl (b * x) = Finite p1" and "fl (2 * p1) = Finite p" by blast
    then have "\<bar>p - b * x * 2\<bar> \<le> \<bar>b * x * 2\<bar> / 2 ^ 51 + 1 / 2 ^ 1073"
      by (rule product_error)
    moreover have "gemine_irrigation_recommendation (PyFloat (Finite x)) plant_size
               = Inr (PyFloat (fl (of_int (round_half_even (p * 100)) / 100)))"
      using that unfolding gemine_irrigation_float b_def [symmetric]
      by (simp add: float_round2_Finite)
    ultimately show ?thesis using hundredth_error [of p] by simp
  qed
  have np: "gemine_irrigation_recommendation (NpFloat64 (Finite x)) plant_size
               = Inr (NpFloat64 (fl (of_int (round_half_even r) / 100)))
             \<and> \<bar>of_int (round_half_even r) / 100 - p\<bar> \<le> 1/200 + \<bar>p\<bar> / 2 ^ 53 + 1 / 2 ^ 1075"
    if "fmul_pos 2 (fl (b * x)) = Finite p \<and> fl (100 * p) = Finite r" for p r
  proof -
    from that have p: "fmul_pos 2 (fl (b * x)) = Finite p" and r: "fl (100 * p) = Finite r"
      by simp_all
    have "gemine_irrigation_recommendation (NpFloat64 (Finite x)) plant_size
               = Inr (NpFloat64 (fl (of_int (round_half_even r) / 100)))"
      unfolding gemine_irrigation_float64 b_def [symmetric] p
      by (simp add: np_round2_Finite [OF r])
    then show ?thesis using np_hundredth_error [OF r] by simp
  qed
  have fin: "\<exists>p r. fmul_pos 2 (fl (b * x)) = Finite p \<and> fl (100 * p) = Finite r"
    if "\<bar>x\<bar> \<le> 2 ^ 1000"
    by (rule product_finite [OF b_range that])
  have int: "gemine_irrigation_recommendation (PyInt i) plant_size
               = gemine_irrigation_recommendation (PyFloat (Finite y)) plant_size"
    if "fl (of_int i) = Finite y" for y
    by (rule gemine_irrigation_int [OF that])
  have same: "llava_irrigation_recommendation stress_score plant_size
           = gemine_irrigation_recommendation stress_score plant_size"
    by (simp add: llava_irrigation_recommendation_eq)
  from zero py np fin int same show ?thesis
    unfolding Let_def b_def [symmetric] by blast
qed

theorem irrigation_recommendation_rounded_product_witness:
  "fmul_pos 2 (fl (0.5 * (1/16))) = Finite (1/16)
   \<and> fl (100 * (1/16)) = Finite (25/4)
   \<and> gemine_irrigation_recommendation (PyFloat (Finite (1/16))) ''small''
       = Inr (PyFloat (Finite (8646911284551352 / 2 ^ 57)))
   \<and> gemine_irrigation_recommendation (NpFloat64 (Finite (1/16))) ''small''
       = Inr (NpFloat64 (Finite (8646911284551352 / 2 ^ 57)))
   \<and> \<bar>(1/16 :: real)\<bar> \<le> 2 ^ 1000
   \<and> fl (of_int 1) = Finite 1
   \<and> gemine_irrigation_recommendation (PyInt 1) ''small''
       = gemine_irrigation_recommendation (PyFloat (Finite 1)) ''small''"
proof -
  have k: "round_half_even ((1/16) * 100) = 6" "round_half_even (25/4) = 6"
    by (simp_all add: round_half_even_def)
  have h1: "fmul_pos 2 (fl (0.5 * (1/16))) = Finite (1/16)"
    by (simp add: fl_32nd fl_sixteenth fmul_pos_def)
  have h2: "fl (100 * (1/16)) = Finite (25/4)"
    using fl_25_4 by simp
  have h3: "\<bar>(1/16 :: real)\<bar> \<le> 2 ^ 1000" by simp
  have h4: "fl (of_int 1) = Finite 1" by (simp add: fl_1)
  have e1: "fl (of_int (round_half_even ((1/16) * 100)) / 100) = Finite (8646911284551352 / 2 ^ 57)"
    using fl_3_50 by (simp add: k)
  have e2: "fl (of_int (round_half_even (25/4)) / 100) = Finite (8646911284551352 / 2 ^ 57)"
    using fl_3_50 by (simp add: k)
  have B: "(if ''small'' = ''small'' then 0.5
            else if ''small'' = ''large'' then 3.0 else 1.5) = (0.5 :: real)"
    by simp
  note T = irrigation_recommendation_rounded_product
    [of "''small''" "1/16" 1 "PyInt 0", unfolded Let_def B]
  from T h1 have "gemine_irrigation_recommendation (PyFloat (Finite (1/16))) ''small''
       = Inr (PyFloat (fl (of_int (round_half_even ((1/16) * 100)) / 100)))"
    by blast
  with e1 have a: "gemine_irrigation_recommendation (PyFloat (Finite (1/16))) ''small''
       = Inr (PyFloat (Finite (8646911284551352 / 2 ^ 57)))" by (simp only:)
  from T h1 h2 have "gemine_irrigation_recommendation (NpFloat64 (Finite (1/16))) ''small''
       = Inr (NpFloat64 (fl (of_int (round_half_even (25/4)) / 100)))"
    by blast
  with e2 have b: "gemine_irrigation_recommendation (NpFloat64 (Finite (1/16))) ''small''
       = Inr (NpFloat64 (Finite (8646911284551352 / 2 ^ 57)))" by (simp only:)
  from T h4 have c: "gemine_irrigation_recommendation (PyInt 1) ''small''
       = gemine_irrigation_recommendation (PyFloat (Finite 1)) ''small''"
    by blast
  from h1 h2 a b h3 h4 c show ?thesis by blast
qed

text \<open>
  The claim as stated fails: at the stress score \<open>1/16\<close> and size "small" the product
  is \<open>1/16\<close> and the volume is the double 0.06; and doubling the stress score from
  \<open>1/256\<close> to \<open>1/128\<close> takes the volume from 0 to the double 0.01, not to twice 0.
\<close>

theorem irrigation_recommendation_not_linear:
  "llava_irrigation_recommendation (PyFloat (Finite (1/16))) ''small''
     \<noteq> Inr (PyFloat (Finite (0.5 * (1/16) * 2)))
   \<and> gemine_irrigation_recommendation (PyFloat (Finite (1/16))) ''small''
     \<noteq> Inr (PyFloat (Finite (0.5 * (1/16) * 2)))
   \<and> llava_irrigation_recommendation (NpFloat64 (Finite (1/16))) ''small''
     \<noteq> Inr (NpFloat64 (Finite (0.5 * (1/16) * 2)))
   \<and> gemine_irrigation_recommendation (NpFloat64 (Finite (1/16))) ''small''
     \<noteq> Inr (NpFloat64 (Finite (0.5 * (1/16) * 2)))
   \<and> llava_irrigation_recommendation (PyFloat (Finite (1/256))) ''small''
     = Inr (PyFloat (Finite 0))
   \<and> llava_irrigation_recommendation (PyFloat (Finite (2 * (1/256)))) ''small''
     \<noteq> Inr (PyFloat (Finite (2 * 0)))
   \<and> gemine_irrigation_recommendation (PyFloat (Finite (1/256))) ''small''
     = Inr (PyFloat (Finite 0))
   \<and> gemine_irrigation_recommendation (PyFloat (Finite (2 * (1/256)))) ''small''
     \<noteq> Inr (PyFloat (Finite (2 * 0)))"
proof -
  have k: "round_half_even (25/4) = 6" "round_half_even (25/64) = 0"
    "round_half_even (25/32) = 1"
    by (simp_all add: round_half_even_def)
  have a: "gemine_irrigation_recommendation (PyFloat (Finite (1/16))) ''small''
      = Inr (PyFloat (Finite (8646911284551352 / 2 ^ 57)))"
    by (simp add: gemine_irrigation_float fmul_pos_def fl_32nd fl_sixteenth
        float_round2_Finite k fl_3_50)
  have "fl (100 * (1/16)) = Finite (25/4)" using fl_25_4 by simp
  from np_round2_Finite [OF this]
  have b: "gemine_irrigation_recommendation (NpFloat64 (Finite (1/16))) ''small''
      = Inr (NpFloat64 (Finite (8646911284551352 / 2 ^ 57)))"
    by (simp add: gemine_irrigation_float64 fmul_pos_def fl_32nd fl_sixteenth k fl_3_50)
  have c: "gemine_irrigation_recommendation (PyFloat (Finite (1/256))) ''small''
      = Inr (PyFloat (Finite 0))"
    by (simp add: gemine_irrigation_float fmul_pos_def fl_512th fl_256th
        float_round2_Finite k fl_0)
  have d: "gemine_irrigation_recommendation (PyFloat (Finite (1/128))) ''small''
      = Inr (PyFloat (Finite (5764607523034235 / 2 ^ 59)))"
    by (simp add: gemine_irrigation_float fmul_pos_def fl_256th fl_128th
        float_round2_Finite k fl_1_100)
  have ne: "(8646911284551352 / 2 ^ 57 :: real) \<noteq> 1/16"
    "(5764607523034235 / 2 ^ 59 :: real) \<noteq> 0" by simp_all
  show ?thesis
    using ne by (simp add: llava_irrigation_recommendation_eq a b c d)
qed

text \<open>
  C6, as amended. \<open>soil_modifier\<close> is case-insensitive: it returns the same value on
  a string and on every case variant of it. By substring match on the lower-cased
  string it maps a string containing "sandy" to 1.2, a string containing "clay" and
  not "sandy" to 1.1, a string containing "loam" and neither "sandy" nor "clay" to
  0.9, and every string containing none of the three to the default 1.0.
\<close>

theorem soil_modifier_case_insensitive_table:
  "(case_variant s t \<longrightarrow>
      gemine_soil_modifier s = gemine_soil_modifier t
      \<and> llava_soil_modifier s = llava_soil_modifier t)
   \<and> (py_in ''sandy'' (py_lower s) \<longrightarrow>
        gemine_soil_modifier s = 1.2 \<and> llava_soil_modifier s = 1.2)
   \<and> (\<not> py_in ''sandy'' (py_lower s) \<and> py_in ''clay'' (py_lower s) \<longrightarrow>
        gemine_soil_modifier s = 1.1 \<and> llava_soil_modifier s = 1.1)
   \<and> (\<not> py_in ''sandy'' (py_lower s) \<and> \<not> py_in ''clay'' (py_lower s)
        \<and> py_in ''loam'' (py_lower s) \<longrightarrow>
        gemine_soil_modifier s = 0.9 \<and> llava_soil_modifier s = 0.9)
   \<and> (\<not> py_in ''sandy'' (py_lower s) \<and> \<not> py_in ''clay'' (py_lower s)
        \<and> \<not> py_in ''loam'' (py_lower s) \<longrightarrow>
        gemine_soil_modifier s = 1.0 \<and> llava_soil_modifier s = 1.0)"
proof -
  have "case_variant s t \<longrightarrow> gemine_soil_modifier s = gemine_soil_modifier t"
    by (auto simp: gemine_soil_modifier_lower dest: case_variant_py_lower)
  then show ?thesis
    by (simp add: llava_soil_modifier_eq gemine_soil_modifier_lower)
qed

theorem soil_modifier_case_insensitive_table_witness:
  "case_variant ''Sandy'' ''sANDY''
   \<and> gemine_soil_modifier ''Sandy'' = gemine_soil_modifier ''sANDY''
   \<and> llava_soil_modifier ''Sandy'' = llava_soil_modifier ''sANDY''
   \<and> py_in ''sandy'' (py_lower ''Sandy'')
   \<and> llava_soil_modifier ''Sandy'' = 1.2
   \<and> \<not> py_in ''sandy'' (py_lower ''Heavy CLAY'') \<and> py_in ''clay'' (py_lower ''Heavy CLAY'')
   \<and> llava_soil_modifier ''Heavy CLAY'' = 1.1
   \<and> \<not> py_in ''clay'' (py_lower ''Loamy'') \<and> py_in ''loam'' (py_lower ''Loamy'')
   \<and> llava_soil_modifier ''Loamy'' = 0.9
   \<and> \<not> py_in ''loam'' (py_lower ''peat'')
   \<and> llava_soil_modifier ''peat'' = 1.0"
proof -
  have h1: "case_variant ''Sandy'' ''sANDY''" by code_simp
  have h2: "py_in ''sandy'' (py_lower ''Sandy'')" by code_simp
  have h3: "\<not> py_in ''sandy'' (py_lower ''Heavy CLAY'')"
    "py_in ''clay'' (py_lower ''Heavy CLAY'')" by code_simp+
  have h4: "\<not> py_in ''sandy'' (py_lower ''Loamy'')" "\<not> py_in ''clay'' (py_lower ''Loamy'')"
    "py_in ''loam'' (py_lower ''Loamy'')" by code_simp+
  have h5: "\<not> py_in ''sandy'' (py_lower ''peat'')" "\<not> py_in ''clay'' (py_lower ''peat'')"
    "\<not> py_in ''loam'' (py_lower ''peat'')" by code_simp+
  show ?thesis
    using h1 h2 h3 h4 h5
      soil_modifier_case_insensitive_table [of "''Sandy''" "''sANDY''"]
      soil_modifier_case_insensitive_table [of "''Heavy CLAY''" "''Heavy CLAY''"]
      soil_modifier_case_insensitive_table [of "''Loamy''" "''Loamy''"]
      soil_modifier_case_insensitive_table [of "''peat''" "''peat''"]
    by simp
qed

text \<open>
  The claim as stated fails on a string that contains two keywords: "sandy clay"
  contains "clay" and is mapped to 1.2.
\<close>

theorem soil_modifier_clay_not_always_1_1:
  "py_in ''clay'' ''sandy clay''
   \<and> llava_soil_modifier ''sandy clay'' \<noteq> 1.1
   \<and> gemine_soil_modifier ''sandy clay'' \<noteq> 1.1"
proof -
  have "py_in ''clay'' ''sandy clay''" by simp
  moreover have "gemine_soil_modifier ''sandy clay'' = 1.2" by code_simp
  ultimately show ?thesis by (simp add: llava_soil_modifier_eq)
qed

text \<open>
  C7, as amended. The Water Deficit Index is not the stress score itself but the
  score rounded to two decimal places, \<^verbatim>\<open>round(stress_score, 2)\<close>. An \<^verbatim>\<open>int\<close> score is
  returned unchanged. A Python \<^verbatim>\<open>float\<close> score \<open>x\<close> gives the double nearest to
  \<open>k/100\<close>, where \<open>k\<close> is the integer nearest to \<open>100 * x\<close> (ties to even): \<open>k/100\<close> is
  within 0.005 of \<open>x\<close>, and the result within 0.005 and one rounding error. A numpy
  \<^verbatim>\<open>float64\<close> score gives the double nearest to \<open>k/100\<close>, where \<open>k\<close> is the integer
  nearest to the double product \<open>100 * x\<close>: \<open>k/100\<close> is within 0.005 and one rounding
  error of \<open>x\<close>. Both files do the same.
\<close>

theorem water_deficit_index_rounds_score:
  "gemine_water_deficit_index (PyInt i) = PyInt i
   \<and> gemine_water_deficit_index (PyFloat (Finite x))
       = PyFloat (fl (of_int (round_half_even (x * 100)) / 100))
   \<and> \<bar>of_int (round_half_even (x * 100)) / 100 - x\<bar> \<le> 1/200
   \<and> (\<forall>w. fl (of_int (round_half_even (x * 100)) / 100) = Finite w \<longrightarrow>
          \<bar>w - x\<bar> \<le> 1/200 + (\<bar>x\<bar> + 1/200) / 2 ^ 53 + 1 / 2 ^ 1075)
   \<and> (\<forall>r. fl (100 * x) = Finite r \<longrightarrow>
          gemine_water_deficit_index (NpFloat64 (Finite x))
            = NpFloat64 (fl (of_int (round_half_even r) / 100))
          \<and> \<bar>of_int (round_half_even r) / 100 - x\<bar> \<le> 1/200 + \<bar>x\<bar> / 2 ^ 53 + 1 / 2 ^ 1075)
   \<and> (\<bar>x\<bar> \<le> 2 ^ 1000 \<longrightarrow> (\<exists>r. fl (100 * x) = Finite r))
   \<and> llava_water_deficit_index stress_score = gemine_water_deficit_index stress_score"
proof -
  let ?k = "of_int (round_half_even (x * 100)) / 100 :: real"
  have h: "\<bar>?k - x\<bar> \<le> 1/200"
    by (rule hundredth_error)
  have w: "\<bar>w - x\<bar> \<le> 1/200 + (\<bar>x\<bar> + 1/200) / 2 ^ 53 + 1 / 2 ^ 1075" if "fl ?k = Finite w" for w
  proof -
    have "\<bar>w - ?k\<bar> \<le> \<bar>?k\<bar> / 2 ^ 53 + 1 / 2 ^ 1075"
      by (rule fl_error [OF that])
    moreover have "\<bar>?k\<bar> \<le> \<bar>x\<bar> + 1/200" using h by linarith
    then have "\<bar>?k\<bar> / 2 ^ 53 \<le> (\<bar>x\<bar> + 1/200) / 2 ^ 53" by (simp only: divide_right_mono zero_le_numeral zero_le_power)
    ultimately show ?thesis using h by linarith
  qed
  have n: "gemine_water_deficit_index (NpFloat64 (Finite x))
            = NpFloat64 (fl (of_int (round_half_even r) / 100))
          \<and> \<bar>of_int (round_half_even r) / 100 - x\<bar> \<le> 1/200 + \<bar>x\<bar> / 2 ^ 53 + 1 / 2 ^ 1075"
    if "fl (100 * x) = Finite r" for r
    using np_round2_Finite [OF that] np_hundredth_error [OF that]
    by (simp add: gemine_water_deficit_index_def)
  have f: "\<exists>r. fl (100 * x) = Finite r" if "\<bar>x\<bar> \<le> 2 ^ 1000"
  proof -
    have "\<bar>100 * x\<bar> \<le> 100 * 2 ^ 1000" using that by (simp add: abs_mult)
    also have "\<dots> \<le> (2::real) ^ 1023" by simp
    finally show ?thesis by (rule fl_finite)
  qed
  show ?thesis
    using h w n f
    by (simp add: gemine_water_deficit_index_def float_round2_Finite llava_water_deficit_index_eq)
qed

theorem water_deficit_index_rounds_score_witness:
  "fl (of_int (round_half_even ((1/16) * 100)) / 100) = Finite (8646911284551352 / 2 ^ 57)
   \<and> gemine_water_deficit_index (PyFloat (Finite (1/16)))
       = PyFloat (Finite (8646911284551352 / 2 ^ 57))
   \<and> \<bar>8646911284551352 / 2 ^ 57 - (1/16 :: real)\<bar>
       \<le> 1/200 + (\<bar>1/16\<bar> + 1/200) / 2 ^ 53 + 1 / 2 ^ 1075
   \<and> fl (100 * (1/16)) = Finite (25/4)
   \<and> gemine_water_deficit_index (NpFloat64 (Finite (1/16)))
       = NpFloat64 (Finite (8646911284551352 / 2 ^ 57))
   \<and> \<bar>(1/16 :: real)\<bar> \<le> 2 ^ 1000"
proof -
  have k: "round_half_even ((1/16) * 100) = 6" "round_half_even (25/4) = 6"
    by (simp_all add: round_half_even_def)
  have h1: "fl (of_int (round_half_even ((1/16) * 100)) / 100) = Finite (8646911284551352 / 2 ^ 57)"
    using fl_3_50 by (simp add: k)
  have h2: "fl (100 * (1/16)) = Finite (25/4)"
    using fl_25_4 by simp
  have h3: "\<bar>(1/16 :: real)\<bar> \<le> 2 ^ 1000" by simp
  have e: "fl (of_int (round_half_even (25/4)) / 100) = Finite (8646911284551352 / 2 ^ 57)"
    using fl_3_50 by (simp add: k)
  from water_deficit_index_rounds_score [of 0 "1/16" "PyInt 0"]
  have a: "gemine_water_deficit_index (PyFloat (Finite (1/16)))
       = PyFloat (fl (of_int (round_half_even ((1/16) * 100)) / 100))"
    and b: "\<forall>w. fl (of_int (round_half_even ((1/16) * 100)) / 100) = Finite w \<longrightarrow>
          \<bar>w - 1/16\<bar> \<le> 1/200 + (\<bar>1/16\<bar> + 1/200) / 2 ^ 53 + 1 / 2 ^ 1075"
    and c: "\<forall>r. fl (100 * (1/16)) = Finite r \<longrightarrow>
          gemine_water_deficit_index (NpFloat64 (Finite (1/16)))
            = NpFloat64 (fl (of_int (round_half_even r) / 100))
          \<and> \<bar>real_of_int (round_half_even r) / 100 - 1/16\<bar>
              \<le> 1/200 + \<bar>1/16\<bar> / 2 ^ 53 + 1 / 2 ^ 1075"
    by blast+
  from a h1 have a': "gemine_water_deficit_index (PyFloat (Finite (1/16)))
       = PyFloat (Finite (8646911284551352 / 2 ^ 57))" by (simp only:)
  from b h1 have b': "\<bar>8646911284551352 / 2 ^ 57 - (1/16 :: real)\<bar>
       \<le> 1/200 + (\<bar>1/16\<bar> + 1/200) / 2 ^ 53 + 1 / 2 ^ 1075" by blast
  from c h2 have "gemine_water_deficit_index (NpFloat64 (Finite (1/16)))
            = NpFloat64 (fl (of_int (round_half_even (25/4)) / 100))" by blast
  with e have c': "gemine_water_deficit_index (NpFloat64 (Finite (1/16)))
       = NpFloat64 (Finite (8646911284551352 / 2 ^ 57))" by (simp only:)
  from h1 a' b' h2 c' h3 show ?thesis by blast
qed

text \<open>
  The claim as stated fails at the score \<open>1/16\<close>, a double, which is rounded to the
  double 0.06 whether it is a Python \<^verbatim>\<open>float\<close> or a numpy \<^verbatim>\<open>float64\<close>. The pipeline
  reaches that score with vegetation index 1, temperature 30, humidity 65 and soil
  string "peat".
\<close>

theorem water_deficit_index_not_identity:
  "llava_water_deficit_index (PyFloat (Finite (1/16))) \<noteq> PyFloat (Finite (1/16))
   \<and> gemine_water_deficit_index (PyFloat (Finite (1/16))) \<noteq> PyFloat (Finite (1/16))
   \<and> llava_water_deficit_index (NpFloat64 (Finite (1/16))) \<noteq> NpFloat64 (Finite (1/16))
   \<and> gemine_water_deficit_index (NpFloat64 (Finite (1/16))) \<noteq> NpFloat64 (Finite (1/16))
   \<and> llava_combined_stress 1 30 65 ''peat'' = 1/16
   \<and> gemine_combined_stress 1 30 65 ''peat'' = 1/16"
proof -
  have soil: "gemine_soil_modifier ''peat'' = 1.0"
    by code_simp
  have cs: "gemine_combined_stress 1 30 65 ''peat'' = 1/16"
    by (simp add: gemine_combined_stress_def gemine_ndvi_stress_def
        gemine_compute_weather_stress_def soil)
  have k: "round_half_even ((1/16) * 100) = 6" "round_half_even (25/4) = 6"
    by (simp_all add: round_half_even_def)
  have p: "gemine_water_deficit_index (PyFloat (Finite (1/16)))
      = PyFloat (Finite (8646911284551352 / 2 ^ 57))"
    using fl_3_50 by (simp add: gemine_water_deficit_index_def float_round2_Finite k)
  have "fl (100 * (1/16)) = Finite (25/4)" using fl_25_4 by simp
  from np_round2_Finite [OF this]
  have n: "gemine_water_deficit_index (NpFloat64 (Finite (1/16)))
      = NpFloat64 (Finite (8646911284551352 / 2 ^ 57))"
    using fl_3_50 by (simp add: gemine_water_deficit_index_def k)
  have ne: "(8646911284551352 / 2 ^ 57 :: real) \<noteq> 1/16" by simp
  show ?thesis
    using cs ne
    by (simp add: llava_water_deficit_index_eq llava_combined_stress_eq p n)
qed

text \<open>
  C8. On every reply string, and whatever the Unicode table says about the code
  points beyond ASCII, the confidence parser returns a value and raises nothing. The
  reply is scrubbed to its digits and decimal points. When \<^verbatim>\<open>float\<close> raises on the
  scrubbed string the result is \<open>None\<close>. When it reads the number \<open>x\<close>, the result is
  the double nearest to \<open>x\<close> clamped to the interval from 0 to 100: a number \<open>v\<close> with
  \<open>0 \<le> v \<le> 100\<close>, equal to \<open>min r 100\<close> for the double \<open>r\<close> of \<open>x\<close>, and to 100 when \<open>x\<close>
  is too large for a double. \<^verbatim>\<open>get_accuracy_from_gemini\<close> and \<^verbatim>\<open>get_accuracy_from_llm\<close>
  return the same number.
\<close>

theorem get_accuracy_none_or_clamped:
  "(let number = filter (\<lambda>ch. is_digit ucd ch \<or> ch = 46) reply
    in (parse_decimal ucd number = Inl ValueError \<longrightarrow>
          get_accuracy_from_gemini ucd reply = None \<and> get_accuracy_from_llm ucd reply = None)
       \<and> (\<forall>x. parse_decimal ucd number = Inr x \<longrightarrow>
             0 \<le> x
             \<and> ((\<exists>r. fl x = Finite r) \<or> fl x = PInf)
             \<and> (\<exists>n m v. get_accuracy_from_gemini ucd reply = Some n
                   \<and> get_accuracy_from_llm ucd reply = Some m
                   \<and> num_float n = Finite v \<and> num_float m = Finite v
                   \<and> 0 \<le> v \<and> v \<le> 100
                   \<and> (\<forall>r. fl x = Finite r \<longrightarrow>
                         v = min r 100 \<and> \<bar>r - x\<bar> \<le> x / 2 ^ 53 + 1 / 2 ^ 1075)
                   \<and> (fl x = PInf \<longrightarrow> v = 100)))
       \<and> (parse_decimal ucd number = Inl ValueError
            \<or> (\<exists>x. parse_decimal ucd number = Inr x)))"
proof -
  define number where "number = filter (\<lambda>ch. is_digit ucd ch \<or> ch = 46) reply"
  have fail: "get_accuracy_from_gemini ucd reply = None \<and> get_accuracy_from_llm ucd reply = None"
    if "parse_decimal ucd number = Inl ValueError"
    using get_accuracy_fail [OF that [unfolded number_def]] by simp
  have ok: "0 \<le> x
             \<and> ((\<exists>r. fl x = Finite r) \<or> fl x = PInf)
             \<and> (\<exists>n m v. get_accuracy_from_gemini ucd reply = Some n
                   \<and> get_accuracy_from_llm ucd reply = Some m
                   \<and> num_float n = Finite v \<and> num_float m = Finite v
                   \<and> 0 \<le> v \<and> v \<le> 100
                   \<and> (\<forall>r. fl x = Finite r \<longrightarrow>
                         v = min r 100 \<and> \<bar>r - x\<bar> \<le> x / 2 ^ 53 + 1 / 2 ^ 1075)
                   \<and> (fl x = PInf \<longrightarrow> v = 100))"
    if p: "parse_decimal ucd number = Inr x" for x
  proof -
    have x0: "0 \<le> x" by (rule parse_decimal_nonneg [OF p])
    note g = get_accuracy_unfold(1) [OF p [unfolded number_def]]
    note l = get_accuracy_unfold(2) [OF p [unfolded number_def]]
    show ?thesis
    proof (cases "fl x")
      case (Finite r)
      have r0: "0 \<le> r" using fl_nonneg(2) [OF x0 Finite] .
      have e: "\<bar>r - x\<bar> \<le> x / 2 ^ 53 + 1 / 2 ^ 1075"
        using fl_error [OF Finite] x0 by simp
      have "num_float (py_max2 (PyInt 0) (py_min2 (PyFloat (Finite r)) (PyInt 100)))
          = Finite (min r 100)"
        by (rule gemini_clamp_Finite [OF r0])
      moreover have "num_float (py_min2 (PyFloat (Finite 100.0))
            (py_max2 (PyFloat (Finite 0.0)) (PyFloat (Finite r)))) = Finite (min r 100)"
        by (rule llm_clamp_Finite [OF r0])
      moreover have "0 \<le> min r 100" "min r 100 \<le> 100" using r0 by simp_all
      ultimately show ?thesis
        using x0 e unfolding g l Finite by auto
    next
      case PInf
      show ?thesis
        using x0 unfolding g l PInf gemini_clamp_PInf llm_clamp_PInf by simp
    next
      case NInf
      with fl_nonneg(1) [OF x0] show ?thesis by simp
    next
      case NaN
      with fl_not_NaN [of x] show ?thesis by simp
    qed
  qed
  have total: "parse_decimal ucd number = Inl ValueError \<or> (\<exists>x. parse_decimal ucd number = Inr x)"
    by (cases "parse_decimal ucd number") (auto dest: parse_decimal_error)
  from fail ok total show ?thesis
    unfolding Let_def number_def [symmetric] by blast
qed

theorem get_accuracy_none_or_clamped_witness:
  "parse_decimal ucd_excerpt
     (filter (\<lambda>ch. is_digit ucd_excerpt ch \<or> ch = 46) (ascii ''I am 90% sure.'')) = Inr 90
   \<and> fl 90 = Finite 90
   \<and> (\<exists>n m. get_accuracy_from_gemini ucd_excerpt (ascii ''I am 90% sure.'') = Some n
        \<and> get_accuracy_from_llm ucd_excerpt (ascii ''I am 90% sure.'') = Some m
        \<and> num_float n = Finite 90 \<and> num_float m = Finite 90)
   \<and> parse_decimal ucd_excerpt
        (filter (\<lambda>ch. is_digit ucd_excerpt ch \<or> ch = 46) [56, 53, 178]) = Inl ValueError
   \<and> get_accuracy_from_gemini ucd_excerpt [56, 53, 178] = None
   \<and> get_accuracy_from_llm ucd_excerpt [56, 53, 178] = None"
proof -
  have h1: "parse_decimal ucd_excerpt
     (filter (\<lambda>ch. is_digit ucd_excerpt ch \<or> ch = 46) (ascii ''I am 90% sure.'')) = Inr 90"
    by code_simp
  have h2: "parse_decimal ucd_excerpt
        (filter (\<lambda>ch. is_digit ucd_excerpt ch \<or> ch = 46) [56, 53, 178]) = Inl ValueError"
    by code_simp
  note T1 = get_accuracy_none_or_clamped
    [of ucd_excerpt "ascii ''I am 90% sure.''", unfolded Let_def]
  note T2 = get_accuracy_none_or_clamped [of ucd_excerpt "[56, 53, 178]", unfolded Let_def]
  from T1 h1 obtain n m v
    where nm: "get_accuracy_from_gemini ucd_excerpt (ascii ''I am 90% sure.'') = Some n"
      "get_accuracy_from_llm ucd_excerpt (ascii ''I am 90% sure.'') = Some m"
      "num_float n = Finite v" "num_float m = Finite v"
      and v: "\<forall>r. fl 90 = Finite r \<longrightarrow> v = min r 100 \<and> \<bar>r - 90\<bar> \<le> 90 / 2 ^ 53 + 1 / 2 ^ 1075"
    by blast
  from v fl_90 have "v = min 90 100" by blast
  then have "v = 90" by simp
  with nm have a: "\<exists>n m. get_accuracy_from_gemini ucd_excerpt (ascii ''I am 90% sure.'') = Some n
        \<and> get_accuracy_from_llm ucd_excerpt (ascii ''I am 90% sure.'') = Some m
        \<and> num_float n = Finite 90 \<and> num_float m = Finite 90"
    by blast
  from T2 h2 have b: "get_accuracy_from_gemini ucd_excerpt [56, 53, 178] = None"
    "get_accuracy_from_llm ucd_excerpt [56, 53, 178] = None"
    by blast+
  from h1 fl_90 a h2 b show ?thesis by blast
qed

text \<open>
  C9. The numeric core functions of the two scripts are extensionally equal:
  \<open>compute_rgvi\<close>, \<open>compute_weather_stress\<close>, \<open>soil_modifier\<close>,
  \<open>irrigation_recommendation\<close>, \<open>confidence_from_rgvi\<close> and \<open>water_deficit_index\<close> of
  \<^verbatim>\<open>gemine.py\<close> return, on every input, what the functions of the same name in
  \<^verbatim>\<open>llava.py\<close> return.
\<close>

theorem duplicated_core_extensionally_equal:
  "gemine_compute_rgvi = llava_compute_rgvi
   \<and> gemine_compute_weather_stress = llava_compute_weather_stress
   \<and> gemine_soil_modifier = llava_soil_modifier
   \<and> gemine_irrigation_recommendation = llava_irrigation_recommendation
   \<and> gemine_confidence_from_rgvi = llava_confidence_from_rgvi
   \<and> gemine_water_deficit_index = llava_water_deficit_index"
  by (simp add: llava_compute_rgvi_eq llava_compute_weather_stress_eq llava_soil_modifier_eq
      llava_irrigation_recommendation_eq llava_confidence_from_rgvi_eq
      llava_water_deficit_index_eq)

text \<open>
  C10, as amended. The substring matches of \<open>soil_modifier\<close> are tried in the order
  sandy, clay, loam, and the first keyword found decides: a string containing "sandy"
  and "clay", or "sandy" and "loam", yields 1.2, and a string containing "clay" and
  "loam" and not "sandy" yields 1.1.
\<close>

theorem soil_modifier_first_keyword_wins:
  "(py_in ''sandy'' (py_lower s) \<and> py_in ''clay'' (py_lower s) \<longrightarrow>
      gemine_soil_modifier s = 1.2 \<and> llava_soil_modifier s = 1.2)
   \<and> (py_in ''sandy'' (py_lower s) \<and> py_in ''loam'' (py_lower s) \<longrightarrow>
      gemine_soil_modifier s = 1.2 \<and> llava_soil_modifier s = 1.2)
   \<and> (py_in ''clay'' (py_lower s) \<and> py_in ''loam'' (py_lower s)
        \<and> \<not> py_in ''sandy'' (py_lower s) \<longrightarrow>
      gemine_soil_modifier s = 1.1 \<and> llava_soil_modifier s = 1.1)"
  by (simp add: llava_soil_modifier_eq gemine_soil_modifier_lower)

theorem soil_modifier_first_keyword_wins_witness:
  "py_in ''sandy'' (py_lower ''Sandy Clay'') \<and> py_in ''clay'' (py_lower ''Sandy Clay'')
   \<and> gemine_soil_modifier ''Sandy Clay'' = 1.2 \<and> llava_soil_modifier ''Sandy Clay'' = 1.2
   \<and> py_in ''sandy'' (py_lower ''sandy loam'') \<and> py_in ''loam'' (py_lower ''sandy loam'')
   \<and> gemine_soil_modifier ''sandy loam'' = 1.2 \<and> llava_soil_modifier ''sandy loam'' = 1.2
   \<and> py_in ''clay'' (py_lower ''Clay loam'') \<and> py_in ''loam'' (py_lower ''Clay loam'')
   \<and> \<not> py_in ''sandy'' (py_lower ''Clay loam'')
   \<and> gemine_soil_modifier ''Clay loam'' = 1.1 \<and> llava_soil_modifier ''Clay loam'' = 1.1"
proof -
  have h1: "py_in ''sandy'' (py_lower ''Sandy Clay'')" "py_in ''clay'' (py_lower ''Sandy Clay'')"
    by code_simp+
  have h2: "py_in ''sandy'' (py_lower ''sandy loam'')" "py_in ''loam'' (py_lower ''sandy loam'')"
    by code_simp+
  have h3: "py_in ''clay'' (py_lower ''Clay loam'')" "py_in ''loam'' (py_lower ''Clay loam'')"
    "\<not> py_in ''sandy'' (py_lower ''Clay loam'')"
    by code_simp+
  show ?thesis
    using h1 h2 h3
      soil_modifier_first_keyword_wins [of "''Sandy Clay''"]
      soil_modifier_first_keyword_wins [of "''sandy loam''"]
      soil_modifier_first_keyword_wins [of "''Clay loam''"]
    by simp
qed

text \<open>
  The claim as stated fails on "sandy clay loam": it contains "clay" and "loam" and is
  mapped to 1.2, since "sandy" is tried first.
\<close>

theorem soil_modifier_clay_loam_with_sandy:
  "py_in ''clay'' ''sandy clay loam'' \<and> py_in ''loam'' ''sandy clay loam''
   \<and> llava_soil_modifier ''sandy clay loam'' \<noteq> 1.1
   \<and> gemine_soil_modifier ''sandy clay loam'' \<noteq> 1.1"
proof -
  have "py_in ''clay'' ''sandy clay loam''" "py_in ''loam'' ''sandy clay loam''" by simp_all
  moreover have "gemine_soil_modifier ''sandy clay loam'' = 1.2" by code_simp
  ultimately show ?thesis by (simp add: llava_soil_modifier_eq)
qed


end
